theory Spec2Isabelle
  imports Complex_Main
begin

section \<open>Conventions\<close>

text \<open>
  The development embeds the dip-arbitrage engine (\<^verbatim>\<open>src/services/dip-arb-service.ts\<close>,
  \<^verbatim>\<open>src/services/dip-arb-types.ts\<close>) and the orderbook analytics of
  \<^verbatim>\<open>src/services/market-service.ts\<close>.

  A JavaScript \<^verbatim>\<open>number\<close> that holds a price, an amount or a clock reading is a
  \<^typ>\<open>real\<close> (exact arithmetic in place of IEEE doubles); a counter that starts at zero
  and is only incremented is a \<^typ>\<open>nat\<close>. An optional field is an \<^typ>\<open>'a option\<close>.
  The class fields of the service are the fields of one state record; a method takes
  the state and returns the new one. \<^verbatim>\<open>Date.now()\<close> and the answers of the awaited
  collaborators (order placement, settlement client, market discovery) are arguments;
  the clock readings of one handler call are taken as one value.
  Events given to \<^verbatim>\<open>emit\<close> are appended to the \<open>emitted\<close> log of the state.
\<close>

section \<open>Orderbook service (market-service.ts)\<close>

record OrderbookLevel =
  lv_price :: real
  lv_size :: real




text \<open>\<^verbatim>\<open>levels[0]?.price ?? d\<close>: the default replaces a missing level only.\<close>

definition firstPriceNullish :: "OrderbookLevel list \<Rightarrow> real \<Rightarrow> real" where
  "firstPriceNullish ls d = (case ls of [] \<Rightarrow> d | l # _ \<Rightarrow> lv_price l)"











section \<open>Dip-arbitrage types (dip-arb-types.ts)\<close>

record DipArbServiceConfig =
  shares :: real
  sumTarget :: real
  dipThreshold :: real
  windowMinutes :: real
  slidingWindowMs :: real
  maxSlippage :: real
  minProfitRate :: real
  leg2TimeoutSeconds :: real
  enableSurge :: bool
  surgeThreshold :: real
  autoMerge :: bool
  autoExecute :: bool
  executionCooldown :: real
  debug :: bool

definition DEFAULT_DIP_ARB_CONFIG :: DipArbServiceConfig where
  "DEFAULT_DIP_ARB_CONFIG =
     \<lparr> shares = 20, sumTarget = 0.95, dipThreshold = 0.15, windowMinutes = 2,
       slidingWindowMs = 3000, maxSlippage = 0.02, minProfitRate = 0.03,
       leg2TimeoutSeconds = 300, enableSurge = True, surgeThreshold = 0.15,
       autoMerge = True, autoExecute = False, executionCooldown = 3000, debug = False \<rparr>"

datatype DipArbUnderlying = BTC | ETH | SOL | XRP

record DipArbMarketConfig =
  mk_name :: string
  slug :: string
  conditionId :: string
  upTokenId :: string
  downTokenId :: string
  underlying :: DipArbUnderlying
  durationMinutes :: real
  endTime :: real

datatype DipArbPhase = waiting | leg1_filled | completed | expired

datatype DipArbSide = UP | DOWN

record DipArbLegInfo =
  leg_side :: DipArbSide
  leg_price :: real
  leg_shares :: real
  leg_timestamp :: real
  leg_tokenId :: string

text \<open>
  A round id is the template string \<^verbatim>\<open>`${slug}-${Date.now()}`\<close>; it is kept as the pair
  of its two parts.
\<close>

type_synonym RoundId = "string \<times> real"

record DipArbRoundState =
  roundId :: RoundId
  startTime :: real
  rd_endTime :: real
  priceToBeat :: real
  openPrices_up :: real
  openPrices_down :: real
  phase :: DipArbPhase
  leg1 :: "DipArbLegInfo option"
  leg2 :: "DipArbLegInfo option"
  totalCost :: "real option"
  profit :: "real option"

datatype SignalSource = dip | surge | mispricing

record BtcInfo =
  btcPrice :: real
  bi_priceToBeat :: real
  btcChangePercent :: real
  estimatedWinRate :: real

record DipArbLeg1Signal =
  l1_roundId :: RoundId
  dipSide :: DipArbSide
  l1_currentPrice :: real
  openPrice :: real
  dropPercent :: real
  l1_targetPrice :: real
  l1_shares :: real
  l1_tokenId :: string
  oppositeAsk :: real
  estimatedTotalCost :: real
  estimatedProfitRate :: real
  source :: SignalSource
  btcInfo :: "BtcInfo option"

record DipArbLeg2Signal =
  l2_roundId :: RoundId
  hedgeSide :: DipArbSide
  l2_leg1 :: DipArbLegInfo
  l2_currentPrice :: real
  l2_targetPrice :: real
  l2_totalCost :: real
  expectedProfitRate :: real
  l2_shares :: real
  l2_tokenId :: string

text \<open>The \<^verbatim>\<open>type\<close> tag of a signal (\<^verbatim>\<open>'leg1' | 'leg2'\<close>) is the constructor.\<close>

datatype DipArbSignal = Leg1 DipArbLeg1Signal | Leg2 DipArbLeg2Signal

datatype ExecutionLeg = exec_leg1 | exec_leg2 | exec_merge

text \<open>
  Of an execution result the order id, the error text and the elapsed time are not
  modelled.
\<close>

record DipArbExecutionResult =
  ex_success :: bool
  ex_leg :: ExecutionLeg
  ex_roundId :: RoundId
  ex_side :: "DipArbSide option"
  ex_price :: "real option"
  ex_shares :: "real option"

datatype RoundStatus = status_completed | status_expired | status_partial

record DipArbRoundResult =
  rr_roundId :: RoundId
  rr_status :: RoundStatus
  rr_leg1 :: "DipArbLegInfo option"
  rr_leg2 :: "DipArbLegInfo option"
  rr_totalCost :: "real option"
  rr_profit :: "real option"
  rr_profitRate :: "real option"
  rr_merged :: bool

record DipArbStats =
  st_startTime :: real
  runningTimeMs :: real
  roundsMonitored :: nat
  roundsCompleted :: nat
  roundsSuccessful :: nat
  roundsExpired :: nat
  signalsDetected :: nat
  leg1Filled :: nat
  leg2Filled :: nat
  totalSpent :: real
  totalProfit :: real
  avgProfitRate :: real

record DipArbNewRoundEvent =
  nr_roundId :: RoundId
  nr_priceToBeat :: real
  upOpen :: real
  downOpen :: real
  nr_startTime :: real
  nr_endTime :: real

record DipArbPriceUpdateEvent =
  pu_underlying :: DipArbUnderlying
  pu_value :: real
  pu_priceToBeat :: real
  changePercent :: real

datatype SettleStrategy = redeem | sell

datatype MarketDuration = dur_5m | dur_15m

record DipArbAutoRotateConfig =
  enabled :: bool
  underlyings :: "DipArbUnderlying list"
  duration :: MarketDuration
  preloadMinutes :: real
  autoSettle :: bool
  settleStrategy :: SettleStrategy
  redeemWaitMinutes :: real
  redeemRetryIntervalSeconds :: real

definition DEFAULT_AUTO_ROTATE_CONFIG :: DipArbAutoRotateConfig where
  "DEFAULT_AUTO_ROTATE_CONFIG =
     \<lparr> enabled = False, underlyings = [BTC], duration = dur_15m, preloadMinutes = 2,
       autoSettle = True, settleStrategy = redeem, redeemWaitMinutes = 5,
       redeemRetryIntervalSeconds = 30 \<rparr>"

record DipArbSettleResult =
  se_success :: bool
  se_strategy :: SettleStrategy
  se_market :: "DipArbMarketConfig option"
  se_amountReceived :: "real option"
  se_error :: "string option"

record DipArbPendingRedemption =
  pr_market :: DipArbMarketConfig
  pr_round :: DipArbRoundState
  marketEndTime :: real
  addedAt :: real
  retryCount :: nat
  lastRetryAt :: "real option"

datatype RotateReason = marketEnded | manual | rotate_error

record DipArbRotateEvent =
  previousMarket :: "string option"
  newMarket :: string
  reason :: RotateReason
  rot_timestamp :: real

datatype DipArbEvent =
    Started DipArbMarketConfig
  | Stopped
  | NewRound DipArbNewRoundEvent
  | Signal DipArbSignal
  | Execution DipArbExecutionResult
  | RoundComplete DipArbRoundResult
  | PriceUpdate DipArbPriceUpdateEvent
  | Rotate DipArbRotateEvent
  | Settled DipArbSettleResult

definition createDipArbInitialStats :: "real \<Rightarrow> DipArbStats" where
  "createDipArbInitialStats now =
     \<lparr> st_startTime = now, runningTimeMs = 0, roundsMonitored = 0, roundsCompleted = 0,
       roundsSuccessful = 0, roundsExpired = 0, signalsDetected = 0, leg1Filled = 0,
       leg2Filled = 0, totalSpent = 0, totalProfit = 0, avgProfitRate = 0 \<rparr>"

definition createDipArbRoundState ::
  "RoundId \<Rightarrow> real \<Rightarrow> real \<Rightarrow> real \<Rightarrow> real \<Rightarrow> real \<Rightarrow> DipArbRoundState" where
  "createDipArbRoundState rid ptb upPrice downPrice durMinutes now =
     \<lparr> roundId = rid, startTime = now, rd_endTime = now + durMinutes * 60 * 1000,
       priceToBeat = ptb, openPrices_up = upPrice, openPrices_down = downPrice,
       phase = waiting, leg1 = None, leg2 = None, totalCost = None, profit = None \<rparr>"

definition calculateDipArbProfitRate :: "real \<Rightarrow> real" where
  "calculateDipArbProfitRate tc = (if tc \<ge> 1 \<or> tc \<le> 0 then 0 else (1 - tc) / tc)"

definition estimateUpWinRate :: "real \<Rightarrow> real \<Rightarrow> real" where
  "estimateUpWinRate currentPrice ptb =
     (if ptb \<le> 0 then 0.5
      else let priceChange = (currentPrice - ptb) / ptb;
               sensitivity = 10;
               winRateShift = priceChange * sensitivity
           in max 0.05 (min 0.95 (0.5 + winRateShift)))"

definition detectMispricing :: "real \<Rightarrow> real \<Rightarrow> real" where
  "detectMispricing tokenPrice winRate = winRate - tokenPrice"


section \<open>Dip-arbitrage engine (dip-arb-service.ts)\<close>

subsection \<open>State\<close>

record PricePoint =
  pp_timestamp :: real
  pp_upAsk :: real
  pp_downAsk :: real

record OrderbookSnapshot =
  snap_tokenId :: string
  snap_bids :: "OrderbookLevel list"
  snap_asks :: "OrderbookLevel list"

record CryptoPrice =
  cp_symbol :: string
  cp_price :: real

text \<open>
  The two optional collaborators of the constructor are kept by their presence:
  \<open>hasTradingService\<close> (the \<^verbatim>\<open>tradingService\<close> argument is not null) and \<open>hasCtf\<close>
  (a private key was given, so a settlement client was built). The subscription
  handles and the interval timers are not part of the state: a delivery or a tick is a
  call of the handler.
\<close>

record DipArbService =
  hasTradingService :: bool
  hasCtf :: bool
  config :: DipArbServiceConfig
  autoRotateConfig :: DipArbAutoRotateConfig
  market :: "DipArbMarketConfig option"
  currentRound :: "DipArbRoundState option"
  isRunning :: bool
  isExecuting :: bool
  lastExecutionTime :: real
  stats :: DipArbStats
  nextMarket :: "DipArbMarketConfig option"
  pendingRedemptions :: "DipArbPendingRedemption list"
  upAsks :: "OrderbookLevel list"
  downAsks :: "OrderbookLevel list"
  priceHistory :: "PricePoint list"
  currentUnderlyingPrice :: real
  leg1SignalEmitted :: bool
  emitted :: "DipArbEvent list"

definition MAX_HISTORY_LENGTH :: nat where
  "MAX_HISTORY_LENGTH = 100"

definition newDipArbService :: "bool \<Rightarrow> bool \<Rightarrow> real \<Rightarrow> DipArbService" where
  "newDipArbService trading privateKey now =
     \<lparr> hasTradingService = trading, hasCtf = privateKey,
       config = DEFAULT_DIP_ARB_CONFIG, autoRotateConfig = DEFAULT_AUTO_ROTATE_CONFIG,
       market = None, currentRound = None, isRunning = False, isExecuting = False,
       lastExecutionTime = 0, stats = createDipArbInitialStats now, nextMarket = None,
       pendingRedemptions = [], upAsks = [], downAsks = [], priceHistory = [],
       currentUnderlyingPrice = 0, leg1SignalEmitted = False, emitted = [] \<rparr>"

text \<open>A partial configuration is the record update it performs.\<close>

definition updateConfig ::
  "DipArbService \<Rightarrow> (DipArbServiceConfig \<Rightarrow> DipArbServiceConfig) \<Rightarrow> DipArbService" where
  "updateConfig s partial = s\<lparr> config := partial (config s) \<rparr>"

definition emit :: "DipArbService \<Rightarrow> DipArbEvent \<Rightarrow> DipArbService" where
  "emit s e = s\<lparr> emitted := emitted s @ [e] \<rparr>"

subsection \<open>Lifecycle\<close>

datatype DipArbError = AlreadyRunning | InvalidMarketConfig

text \<open>
  \<^verbatim>\<open>start\<close>: the two throws, then the four assignments; connecting and subscribing
  change nothing that the state holds.
\<close>

definition start :: "DipArbService \<Rightarrow> DipArbMarketConfig \<Rightarrow> real \<Rightarrow> DipArbError + DipArbService" where
  "start s m now =
     (if isRunning s then Inl AlreadyRunning
      else if upTokenId m = [] \<or> downTokenId m = [] then Inl InvalidMarketConfig
      else Inr (emit (s\<lparr> market := Some m, isRunning := True,
                          stats := createDipArbInitialStats now,
                          priceHistory := [] \<rparr>) (Started m)))"

definition stop :: "DipArbService \<Rightarrow> real \<Rightarrow> DipArbService" where
  "stop s now =
     (if isRunning s then
        emit (s\<lparr> isRunning := False,
                  stats := (stats s)\<lparr> runningTimeMs := now - st_startTime (stats s) \<rparr> \<rparr>) Stopped
      else s)"

subsection \<open>Price history\<close>

definition recordPriceHistory :: "DipArbService \<Rightarrow> real \<Rightarrow> DipArbService" where
  "recordPriceHistory s now =
     (let upAsk = firstPriceNullish (upAsks s) 0;
          downAsk = firstPriceNullish (downAsks s) 0
      in if upAsk \<le> 0 \<or> downAsk \<le> 0 then s
         else let h = priceHistory s @
                        [\<lparr> pp_timestamp = now, pp_upAsk = upAsk, pp_downAsk = downAsk \<rparr>]
              in s\<lparr> priceHistory :=
                      (if length h > MAX_HISTORY_LENGTH
                       then drop (length h - MAX_HISTORY_LENGTH) h else h) \<rparr>)"

text \<open>
  The loop of \<^verbatim>\<open>getPriceFromHistory\<close> walks the ring from its last entry down to its
  first and stops at the first entry at or before the target time: \<open>scanBack\<close> on the
  reversed ring.
\<close>

fun scanBack :: "real \<Rightarrow> PricePoint list \<Rightarrow> PricePoint option" where
  "scanBack targetTime [] = None"
| "scanBack targetTime (e # es) =
     (if pp_timestamp e \<le> targetTime then Some e else scanBack targetTime es)"

definition getPriceFromHistory :: "DipArbService \<Rightarrow> DipArbSide \<Rightarrow> real \<Rightarrow> real \<Rightarrow> real option" where
  "getPriceFromHistory s side msAgo now =
     (case scanBack (now - msAgo) (rev (priceHistory s)) of
        None \<Rightarrow> None
      | Some e \<Rightarrow> Some (if side = UP then pp_upAsk e else pp_downAsk e))"

definition underlyingName :: "DipArbUnderlying \<Rightarrow> string" where
  "underlyingName u = (case u of BTC \<Rightarrow> ''BTC'' | ETH \<Rightarrow> ''ETH'' | SOL \<Rightarrow> ''SOL'' | XRP \<Rightarrow> ''XRP'')"

definition handleChainlinkPriceUpdate :: "DipArbService \<Rightarrow> CryptoPrice \<Rightarrow> DipArbService" where
  "handleChainlinkPriceUpdate s p =
     (case market s of
        None \<Rightarrow> s
      | Some m \<Rightarrow>
          if cp_symbol p \<noteq> underlyingName (underlying m) @ ''/USD'' then s
          else let s1 = s\<lparr> currentUnderlyingPrice := cp_price p \<rparr>
               in (case currentRound s1 of
                     None \<Rightarrow> s1
                   | Some r \<Rightarrow>
                       emit s1 (PriceUpdate
                         \<lparr> pu_underlying = underlying m, pu_value = cp_price p,
                           pu_priceToBeat = priceToBeat r,
                           changePercent =
                             (if priceToBeat r > 0
                              then ((cp_price p - priceToBeat r) / priceToBeat r) * 100
                              else 0) \<rparr>)))"

subsection \<open>Round management\<close>

text \<open>The first block of \<^verbatim>\<open>checkAndStartNewRound\<close>: create the round.\<close>

definition startNewRound :: "DipArbService \<Rightarrow> DipArbMarketConfig \<Rightarrow> real \<Rightarrow> DipArbService" where
  "startNewRound s m now =
     (let upPrice = firstPriceNullish (upAsks s) 0.5;
          downPrice = firstPriceNullish (downAsks s) 0.5;
          ptb = currentUnderlyingPrice s;
          rid = (slug m, now);
          r = createDipArbRoundState rid ptb upPrice downPrice (durationMinutes m) now
      in emit (s\<lparr> currentRound := Some r, priceHistory := [], leg1SignalEmitted := False,
                  stats := (stats s)\<lparr> roundsMonitored := roundsMonitored (stats s) + 1 \<rparr> \<rparr>)
           (NewRound \<lparr> nr_roundId = rid, nr_priceToBeat = ptb, upOpen = upPrice,
                       downOpen = downPrice, nr_startTime = startTime r,
                       nr_endTime = rd_endTime r \<rparr>))"

text \<open>
  The second block: the Leg2 timeout. \<^verbatim>\<open>leg1?.timestamp || startTime\<close> falls back to
  the round start when there is no Leg1 or its timestamp is zero.
\<close>

definition checkRoundExpiration :: "DipArbService \<Rightarrow> real \<Rightarrow> DipArbService" where
  "checkRoundExpiration s now =
     (case currentRound s of
        None \<Rightarrow> s
      | Some r \<Rightarrow>
          if phase r = leg1_filled then
            let since = (case leg1 r of
                           None \<Rightarrow> startTime r
                         | Some l \<Rightarrow> if leg_timestamp l = 0 then startTime r else leg_timestamp l);
                elapsed = (now - since) / 1000
            in if elapsed > leg2TimeoutSeconds (config s) then
                 emit (s\<lparr> currentRound := Some (r\<lparr> phase := expired \<rparr>),
                           stats := (stats s)\<lparr> roundsExpired := roundsExpired (stats s) + 1,
                                               roundsCompleted := roundsCompleted (stats s) + 1 \<rparr> \<rparr>)
                   (RoundComplete \<lparr> rr_roundId = roundId r, rr_status = status_expired,
                                    rr_leg1 = leg1 r, rr_leg2 = None, rr_totalCost = None,
                                    rr_profit = None, rr_profitRate = None, rr_merged = False \<rparr>)
               else s
          else s)"

definition roundIsOver :: "DipArbRoundState option \<Rightarrow> bool" where
  "roundIsOver ro =
     (case ro of None \<Rightarrow> True | Some r \<Rightarrow> phase r = completed \<or> phase r = expired)"

definition checkAndStartNewRound :: "DipArbService \<Rightarrow> real \<Rightarrow> DipArbService" where
  "checkAndStartNewRound s now =
     (case market s of
        None \<Rightarrow> s
      | Some m \<Rightarrow>
          if roundIsOver (currentRound s) then
            (if now \<ge> endTime m then s
             else checkRoundExpiration (startNewRound s m now) now)
          else checkRoundExpiration s now)"


subsection \<open>Signal detection\<close>

definition createLeg1Signal ::
  "DipArbService \<Rightarrow> DipArbSide \<Rightarrow> real \<Rightarrow> real \<Rightarrow> SignalSource \<Rightarrow> real \<Rightarrow> real option
     \<Rightarrow> DipArbLeg1Signal option" where
  "createLeg1Signal s side price oppAsk src dropPct referencePrice =
     (case currentRound s of
        None \<Rightarrow> None
      | Some r \<Rightarrow>
         (case market s of
            None \<Rightarrow> None
          | Some m \<Rightarrow>
              let targetPrice = price * (1 + maxSlippage (config s));
                  estTotalCost = targetPrice + oppAsk;
                  estProfitRate = calculateDipArbProfitRate estTotalCost;
                  openP = (case referencePrice of
                             Some ref \<Rightarrow> ref
                           | None \<Rightarrow> if side = UP then openPrices_up r else openPrices_down r)
              in Some \<lparr> l1_roundId = roundId r, dipSide = side, l1_currentPrice = price,
                        openPrice = openP, dropPercent = dropPct, l1_targetPrice = targetPrice,
                        l1_shares = shares (config s),
                        l1_tokenId = (if side = UP then upTokenId m else downTokenId m),
                        oppositeAsk = oppAsk, estimatedTotalCost = estTotalCost,
                        estimatedProfitRate = estProfitRate, source = src,
                        btcInfo =
                          (if priceToBeat r > 0 \<and> currentUnderlyingPrice s > 0 then
                             Some \<lparr> btcPrice = currentUnderlyingPrice s,
                                    bi_priceToBeat = priceToBeat r,
                                    btcChangePercent =
                                      ((currentUnderlyingPrice s - priceToBeat r) / priceToBeat r) * 100,
                                    estimatedWinRate =
                                      estimateUpWinRate (currentUnderlyingPrice s) (priceToBeat r) \<rparr>
                           else None) \<rparr>))"

definition validateSignalProfitability :: "DipArbService \<Rightarrow> DipArbLeg1Signal \<Rightarrow> bool" where
  "validateSignalProfitability s sig =
     (if l1_currentPrice sig \<le> 0 \<or> l1_currentPrice sig \<ge> 1 then False
      else if dropPercent sig < dipThreshold (config s) then False
      else True)"

text \<open>\<^verbatim>\<open>if (signal && this.validateSignalProfitability(signal)) return signal;\<close>\<close>

definition accepted :: "DipArbService \<Rightarrow> DipArbLeg1Signal option \<Rightarrow> DipArbLeg1Signal option" where
  "accepted s sig =
     (case sig of
        None \<Rightarrow> None
      | Some g \<Rightarrow> if validateSignalProfitability s g then Some g else None)"

text \<open>
  Pattern 1 of \<^verbatim>\<open>detectLeg1Signal\<close> for one side: \<open>price\<close> is the side's ask,
  \<open>oppAsk\<close> the other side's, \<open>ago\<close> the side's reference from the ring.
\<close>

definition instantDip ::
  "DipArbService \<Rightarrow> DipArbSide \<Rightarrow> real \<Rightarrow> real \<Rightarrow> real option \<Rightarrow> DipArbLeg1Signal option" where
  "instantDip s side price oppAsk ago =
     (case ago of
        None \<Rightarrow> None
      | Some ref \<Rightarrow>
          if ref > 0 then
            let instantDrop = (ref - price) / ref
            in if instantDrop \<ge> dipThreshold (config s)
               then accepted s (createLeg1Signal s side price oppAsk dip instantDrop (Some ref))
               else None
          else None)"

text \<open>
  Pattern 2 for one surging side: \<open>surged\<close> and \<open>surgedAgo\<close> are the ask and the
  reference of the side that rose; the signal buys the other side \<open>buySide\<close> at
  \<open>buyPrice\<close>, with that side's reference \<open>buyAgo\<close> recorded as open price.
\<close>

definition instantSurge ::
  "DipArbService \<Rightarrow> DipArbSide \<Rightarrow> real \<Rightarrow> real \<Rightarrow> real \<Rightarrow> real \<Rightarrow> DipArbLeg1Signal option" where
  "instantSurge s buySide buyPrice surged surgedAgo buyAgo =
     (if surgedAgo > 0 then
        let sg = (surged - surgedAgo) / surgedAgo
        in if sg \<ge> surgeThreshold (config s)
           then accepted s (createLeg1Signal s buySide buyPrice surged surge sg (Some buyAgo))
           else None
      else None)"

text \<open>Pattern 3 for one side: \<open>winRate\<close> is the estimated win rate of that side.\<close>

definition mispriced ::
  "DipArbService \<Rightarrow> DipArbSide \<Rightarrow> real \<Rightarrow> real \<Rightarrow> real \<Rightarrow> DipArbLeg1Signal option" where
  "mispriced s side price oppAsk winRate =
     (let m = detectMispricing price winRate
      in if m \<ge> dipThreshold (config s)
         then accepted s (createLeg1Signal s side price oppAsk mispricing m None)
         else None)"

text \<open>The first pattern that returns a signal ends the function.\<close>

fun firstSignal :: "'a option list \<Rightarrow> 'a option" where
  "firstSignal [] = None"
| "firstSignal (None # xs) = firstSignal xs"
| "firstSignal (Some x # xs) = Some x"

definition detectLeg1Signal :: "DipArbService \<Rightarrow> real \<Rightarrow> DipArbLeg1Signal option" where
  "detectLeg1Signal s now =
     (case currentRound s of
        None \<Rightarrow> None
      | Some r \<Rightarrow>
         (case market s of
            None \<Rightarrow> None
          | Some m \<Rightarrow>
              let elapsed = (now - startTime r) / 60000
              in if elapsed > windowMinutes (config s) then None
                 else
                   let upPrice = firstPriceNullish (upAsks s) 1;
                       downPrice = firstPriceNullish (downAsks s) 1
                   in if upPrice \<ge> 1 \<or> downPrice \<ge> 1
                         \<or> openPrices_up r \<le> 0 \<or> openPrices_down r \<le> 0 then None
                      else
                        let upPriceAgo = getPriceFromHistory s UP (slidingWindowMs (config s)) now;
                            downPriceAgo = getPriceFromHistory s DOWN (slidingWindowMs (config s)) now
                        in firstSignal
                             [ instantDip s UP upPrice downPrice upPriceAgo,
                               instantDip s DOWN downPrice upPrice downPriceAgo,
                               (case upPriceAgo of
                                  None \<Rightarrow> None
                                | Some ua \<Rightarrow>
                                   (case downPriceAgo of
                                      None \<Rightarrow> None
                                    | Some da \<Rightarrow>
                                        if enableSurge (config s) then
                                          firstSignal
                                            [ instantSurge s DOWN downPrice upPrice ua da,
                                              instantSurge s UP upPrice downPrice da ua ]
                                        else None)),
                               (if priceToBeat r > 0 \<and> currentUnderlyingPrice s > 0 then
                                  let winRate = estimateUpWinRate (currentUnderlyingPrice s) (priceToBeat r)
                                  in firstSignal
                                       [ mispriced s UP upPrice downPrice winRate,
                                         mispriced s DOWN downPrice upPrice (1 - winRate) ]
                                else None) ]))"

definition detectLeg2Signal :: "DipArbService \<Rightarrow> DipArbLeg2Signal option" where
  "detectLeg2Signal s =
     (case currentRound s of
        None \<Rightarrow> None
      | Some r \<Rightarrow>
         (case market s of
            None \<Rightarrow> None
          | Some m \<Rightarrow>
             (case leg1 r of
                None \<Rightarrow> None
              | Some l1 \<Rightarrow>
                  let hedge = (if leg_side l1 = UP then DOWN else UP);
                      currentPrice = (if hedge = UP then firstPriceNullish (upAsks s) 1
                                      else firstPriceNullish (downAsks s) 1)
                  in if currentPrice \<ge> 1 then None
                     else
                       let targetPrice = currentPrice * (1 + maxSlippage (config s));
                           tc = leg_price l1 + targetPrice
                       in if tc > sumTarget (config s) then None
                          else Some \<lparr> l2_roundId = roundId r, hedgeSide = hedge, l2_leg1 = l1,
                                      l2_currentPrice = currentPrice, l2_targetPrice = targetPrice,
                                      l2_totalCost = tc,
                                      expectedProfitRate = calculateDipArbProfitRate tc,
                                      l2_shares = shares (config s),
                                      l2_tokenId = (if hedge = UP then upTokenId m
                                                    else downTokenId m) \<rparr>)))"

definition detectSignal :: "DipArbService \<Rightarrow> real \<Rightarrow> DipArbSignal option" where
  "detectSignal s now =
     (case currentRound s of
        None \<Rightarrow> None
      | Some r \<Rightarrow>
         (case market s of
            None \<Rightarrow> None
          | Some m \<Rightarrow>
              if phase r = waiting then map_option Leg1 (detectLeg1Signal s now)
              else if phase r = leg1_filled then map_option Leg2 (detectLeg2Signal s)
              else None))"


subsection \<open>Execution\<close>

text \<open>
  The answer of the awaited \<^verbatim>\<open>tradingService.createMarketOrder\<close>: a result with
  \<^verbatim>\<open>success\<close> set, a result without, or an exception. The call is modelled as answered
  within the step that places it.
\<close>

datatype OrderResult = OrderOk | OrderRejected | OrderThrows

definition executionFailed :: "ExecutionLeg \<Rightarrow> RoundId \<Rightarrow> DipArbExecutionResult" where
  "executionFailed lg rid =
     \<lparr> ex_success = False, ex_leg = lg, ex_roundId = rid, ex_side = None,
       ex_price = None, ex_shares = None \<rparr>"

definition executeLeg1 ::
  "DipArbService \<Rightarrow> DipArbLeg1Signal \<Rightarrow> real \<Rightarrow> OrderResult
     \<Rightarrow> DipArbExecutionResult \<times> DipArbService" where
  "executeLeg1 s sig now ord =
     (case currentRound s of
        None \<Rightarrow> (executionFailed exec_leg1 (l1_roundId sig), s)
      | Some r \<Rightarrow>
          if hasTradingService s \<and> market s \<noteq> None then
            (case ord of
               OrderOk \<Rightarrow>
                 (\<lparr> ex_success = True, ex_leg = exec_leg1, ex_roundId = l1_roundId sig,
                    ex_side = Some (dipSide sig), ex_price = Some (l1_targetPrice sig),
                    ex_shares = Some (l1_shares sig) \<rparr>,
                  s\<lparr> currentRound :=
                       Some (r\<lparr> leg1 := Some \<lparr> leg_side = dipSide sig,
                                               leg_price = l1_targetPrice sig,
                                               leg_shares = l1_shares sig,
                                               leg_timestamp = now,
                                               leg_tokenId = l1_tokenId sig \<rparr>,
                                phase := leg1_filled \<rparr>),
                     stats := (stats s)\<lparr> leg1Filled := leg1Filled (stats s) + 1 \<rparr>,
                     lastExecutionTime := now,
                     isExecuting := False \<rparr>)
             | OrderRejected \<Rightarrow>
                 (executionFailed exec_leg1 (l1_roundId sig), s\<lparr> isExecuting := False \<rparr>)
             | OrderThrows \<Rightarrow>
                 (executionFailed exec_leg1 (l1_roundId sig), s\<lparr> isExecuting := False \<rparr>))
          else (executionFailed exec_leg1 (l1_roundId sig), s))"

text \<open>
  \<^verbatim>\<open>executeLeg2\<close>. The merge that follows a fill when \<^verbatim>\<open>autoMerge\<close> is set writes
  only into the round result after it was emitted; it changes no field of the service.
\<close>

definition executeLeg2 ::
  "DipArbService \<Rightarrow> DipArbLeg2Signal \<Rightarrow> real \<Rightarrow> OrderResult
     \<Rightarrow> DipArbExecutionResult \<times> DipArbService" where
  "executeLeg2 s sig now ord =
     (case currentRound s of
        None \<Rightarrow> (executionFailed exec_leg2 (l2_roundId sig), s)
      | Some r \<Rightarrow>
          if hasTradingService s \<and> market s \<noteq> None then
            (case ord of
               OrderOk \<Rightarrow>
                 (let fill = \<lparr> leg_side = hedgeSide sig, leg_price = l2_targetPrice sig,
                               leg_shares = l2_shares sig, leg_timestamp = now,
                               leg_tokenId = l2_tokenId sig \<rparr>;
                      pf = 1 - l2_totalCost sig
                  in (\<lparr> ex_success = True, ex_leg = exec_leg2, ex_roundId = l2_roundId sig,
                        ex_side = Some (hedgeSide sig), ex_price = Some (l2_targetPrice sig),
                        ex_shares = Some (l2_shares sig) \<rparr>,
                      emit (s\<lparr> currentRound :=
                                 Some (r\<lparr> leg2 := Some fill, phase := completed,
                                          totalCost := Some (l2_totalCost sig),
                                          profit := Some pf \<rparr>),
                               stats := (stats s)
                                 \<lparr> leg2Filled := leg2Filled (stats s) + 1,
                                   roundsSuccessful := roundsSuccessful (stats s) + 1,
                                   totalProfit := totalProfit (stats s) + pf * l2_shares sig,
                                   totalSpent := totalSpent (stats s)
                                                  + l2_totalCost sig * l2_shares sig \<rparr>,
                               lastExecutionTime := now,
                               isExecuting := False \<rparr>)
                        (RoundComplete
                           \<lparr> rr_roundId = l2_roundId sig, rr_status = status_completed,
                             rr_leg1 = leg1 r, rr_leg2 = Some fill,
                             rr_totalCost = Some (l2_totalCost sig), rr_profit = Some pf,
                             rr_profitRate = Some (calculateDipArbProfitRate (l2_totalCost sig)),
                             rr_merged = False \<rparr>)))
             | OrderRejected \<Rightarrow>
                 (executionFailed exec_leg2 (l2_roundId sig), s\<lparr> isExecuting := False \<rparr>)
             | OrderThrows \<Rightarrow>
                 (executionFailed exec_leg2 (l2_roundId sig), s\<lparr> isExecuting := False \<rparr>))
          else (executionFailed exec_leg2 (l2_roundId sig), s))"

subsection \<open>Signal handling and the orderbook handler\<close>

definition handleSignal ::
  "DipArbService \<Rightarrow> DipArbSignal \<Rightarrow> real \<Rightarrow> OrderResult \<Rightarrow> DipArbService" where
  "handleSignal s sig now ord =
     (let s1 = emit (s\<lparr> stats := (stats s)\<lparr> signalsDetected := signalsDetected (stats s) + 1 \<rparr> \<rparr>)
                 (Signal sig)
      in if autoExecute (config s1) \<and> \<not> isExecuting s1 then
           (if now - lastExecutionTime s1 \<ge> executionCooldown (config s1) then
              (case (case sig of
                       Leg1 g \<Rightarrow> executeLeg1 s1 g now ord
                     | Leg2 g \<Rightarrow> executeLeg2 s1 g now ord) of
                 (res, s2) \<Rightarrow> emit s2 (Execution res))
            else s1)
         else s1)"

definition handleOrderbookUpdate ::
  "DipArbService \<Rightarrow> OrderbookSnapshot \<Rightarrow> real \<Rightarrow> OrderResult \<Rightarrow> DipArbService" where
  "handleOrderbookUpdate s book now ord =
     (case market s of
        None \<Rightarrow> s
      | Some m \<Rightarrow>
          let s1 = (if snap_tokenId book = upTokenId m then s\<lparr> upAsks := snap_asks book \<rparr>
                    else if snap_tokenId book = downTokenId m then s\<lparr> downAsks := snap_asks book \<rparr>
                    else s);
              s2 = recordPriceHistory s1 now;
              s3 = checkAndStartNewRound s2 now
          in (case detectSignal s3 now of
                None \<Rightarrow> s3
              | Some sig \<Rightarrow> handleSignal s3 sig now ord))"


subsection \<open>Pending redemptions\<close>

text \<open>
  What the settlement client answers for one market during a tick:
  \<^verbatim>\<open>getMarketResolution\<close> reports unresolved or throws, or it reports resolved and
  \<^verbatim>\<open>redeemByTokenIds\<close> returns (success flag, parsed \<^verbatim>\<open>usdcReceived\<close>) or throws.
\<close>

datatype CtfAnswer =
    NotResolved
  | ResolutionThrows string
  | Redeemed bool "real option"
  | RedeemThrows string

definition addPendingRedemption ::
  "DipArbService \<Rightarrow> DipArbMarketConfig \<Rightarrow> DipArbRoundState \<Rightarrow> real \<Rightarrow> DipArbService" where
  "addPendingRedemption s m r now =
     s\<lparr> pendingRedemptions := pendingRedemptions s @
          [\<lparr> pr_market = m, pr_round = r, marketEndTime = endTime m, addedAt = now,
             retryCount = 0, lastRetryAt = None \<rparr>] \<rparr>"

definition redeemGiveUp :: "DipArbPendingRedemption \<Rightarrow> string \<Rightarrow> DipArbEvent" where
  "redeemGiveUp p msg =
     Settled \<lparr> se_success = False, se_strategy = redeem, se_market = Some (pr_market p),
               se_amountReceived = None, se_error = Some msg \<rparr>"

text \<open>
  The body of the loop of \<^verbatim>\<open>processPendingRedemptions\<close> for one entry: the entry as
  it stays in the queue (\<open>None\<close> when it is spliced out), the events emitted and the
  amount added to \<^verbatim>\<open>stats.totalProfit\<close>.
\<close>

definition redeemOne ::
  "bool \<Rightarrow> real \<Rightarrow> real \<Rightarrow> (string \<Rightarrow> CtfAnswer) \<Rightarrow> DipArbPendingRedemption
     \<Rightarrow> DipArbPendingRedemption option \<times> DipArbEvent list \<times> real" where
  "redeemOne ctfPresent now waitMs ctf p =
     (if now - marketEndTime p < waitMs then (Some p, [], 0)
      else
        let p' = p\<lparr> retryCount := retryCount p + 1, lastRetryAt := Some now \<rparr>
        in if ctfPresent then
             (case ctf (conditionId (pr_market p')) of
                NotResolved \<Rightarrow>
                  if retryCount p' > 20
                  then (None, [redeemGiveUp p' ''Market not resolved after max retries''], 0)
                  else (Some p', [], 0)
              | ResolutionThrows msg \<Rightarrow>
                  if retryCount p' > 20 then (None, [redeemGiveUp p' msg], 0)
                  else (Some p', [], 0)
              | RedeemThrows msg \<Rightarrow>
                  if retryCount p' > 20 then (None, [redeemGiveUp p' msg], 0)
                  else (Some p', [], 0)
              | Redeemed ok amount \<Rightarrow>
                  (None,
                   [Settled \<lparr> se_success = ok, se_strategy = redeem,
                              se_market = Some (pr_market p'),
                              se_amountReceived = amount, se_error = None \<rparr>],
                   (case amount of None \<Rightarrow> 0 | Some a \<Rightarrow> a)))
           else (Some p', [], 0))"

text \<open>
  The loop runs from the last index down to the first; \<open>redeemLoop\<close> takes the queue
  reversed and gives back the remaining queue in its original order.
\<close>

fun redeemLoop ::
  "bool \<Rightarrow> real \<Rightarrow> real \<Rightarrow> (string \<Rightarrow> CtfAnswer) \<Rightarrow> DipArbPendingRedemption list
     \<Rightarrow> DipArbPendingRedemption list \<times> DipArbEvent list \<times> real" where
  "redeemLoop ctfPresent now waitMs ctf [] = ([], [], 0)"
| "redeemLoop ctfPresent now waitMs ctf (p # ps) =
     (case redeemOne ctfPresent now waitMs ctf p of
        (kept, evs, amt) \<Rightarrow>
          (case redeemLoop ctfPresent now waitMs ctf ps of
             (keptRest, evsRest, amtRest) \<Rightarrow>
               (keptRest @ (case kept of None \<Rightarrow> [] | Some q \<Rightarrow> [q]),
                evs @ evsRest, amt + amtRest)))"

definition processPendingRedemptions ::
  "DipArbService \<Rightarrow> real \<Rightarrow> (string \<Rightarrow> CtfAnswer) \<Rightarrow> DipArbService" where
  "processPendingRedemptions s now ctf =
     (if pendingRedemptions s = [] then s
      else
        let wait = redeemWaitMinutes (autoRotateConfig s);
            waitMs = (if wait = 0 then 5 else wait) * 60 * 1000
        in (case redeemLoop (hasCtf s) now waitMs ctf (rev (pendingRedemptions s)) of
              (kept, evs, amt) \<Rightarrow>
                s\<lparr> pendingRedemptions := kept,
                    emitted := emitted s @ evs,
                    stats := (stats s)\<lparr> totalProfit := totalProfit (stats s) + amt \<rparr> \<rparr>))"

text \<open>A run of the redemption ticker: one call per tick, each with its clock and answers.\<close>

fun redeemTicks ::
  "DipArbService \<Rightarrow> (real \<times> (string \<Rightarrow> CtfAnswer)) list \<Rightarrow> DipArbService" where
  "redeemTicks s [] = s"
| "redeemTicks s ((now, ctf) # ticks) = redeemTicks (processPendingRedemptions s now ctf) ticks"

subsection \<open>Settlement and rotation\<close>

definition settleFailed :: "SettleStrategy \<Rightarrow> string \<Rightarrow> DipArbSettleResult" where
  "settleFailed strategy msg =
     \<lparr> se_success = False, se_strategy = strategy, se_market = None,
       se_amountReceived = None, se_error = Some msg \<rparr>"

definition settleByRedeem :: "DipArbService \<Rightarrow> CtfAnswer \<Rightarrow> DipArbSettleResult" where
  "settleByRedeem s answer =
     (if hasCtf s \<and> market s \<noteq> None then
        (case answer of
           NotResolved \<Rightarrow> settleFailed redeem ''Market not yet resolved''
         | ResolutionThrows msg \<Rightarrow> settleFailed redeem msg
         | RedeemThrows msg \<Rightarrow> settleFailed redeem msg
         | Redeemed ok amount \<Rightarrow>
             \<lparr> se_success = ok, se_strategy = redeem, se_market = None,
               se_amountReceived = amount, se_error = None \<rparr>)
      else settleFailed redeem ''CTF client or market not available'')"

definition sideAsk :: "DipArbService \<Rightarrow> DipArbSide \<Rightarrow> real" where
  "sideAsk s side =
     (if side = UP then firstPriceNullish (upAsks s) 0.5 else firstPriceNullish (downAsks s) 0.5)"

definition sellLeg :: "DipArbService \<Rightarrow> DipArbLegInfo option \<Rightarrow> OrderResult \<Rightarrow> real option" where
  "sellLeg s lg ord =
     (case lg of
        None \<Rightarrow> Some 0
      | Some l \<Rightarrow>
         (case ord of
            OrderOk \<Rightarrow> Some (leg_shares l * sideAsk s (leg_side l))
          | OrderRejected \<Rightarrow> Some 0
          | OrderThrows \<Rightarrow> None))"

definition settleBySell :: "DipArbService \<Rightarrow> OrderResult \<Rightarrow> OrderResult \<Rightarrow> DipArbSettleResult" where
  "settleBySell s ord1 ord2 =
     (case currentRound s of
        None \<Rightarrow> settleFailed sell ''Trading service or market not available''
      | Some r \<Rightarrow>
          if hasTradingService s \<and> market s \<noteq> None then
            (case sellLeg s (leg1 r) ord1 of
               None \<Rightarrow> settleFailed sell ''order error''
             | Some a1 \<Rightarrow>
                (case sellLeg s (leg2 r) ord2 of
                   None \<Rightarrow> settleFailed sell ''order error''
                 | Some a2 \<Rightarrow>
                     \<lparr> se_success = True, se_strategy = sell, se_market = None,
                       se_amountReceived = Some (0 + a1 + a2), se_error = None \<rparr>))
          else settleFailed sell ''Trading service or market not available'')"

definition settle ::
  "DipArbService \<Rightarrow> SettleStrategy \<Rightarrow> CtfAnswer \<Rightarrow> OrderResult \<Rightarrow> OrderResult \<Rightarrow> DipArbSettleResult" where
  "settle s strategy answer ord1 ord2 =
     (if market s \<noteq> None \<and> currentRound s \<noteq> None then
        (if strategy = redeem then settleByRedeem s answer else settleBySell s ord1 ord2)
      else settleFailed strategy ''No active market or round'')"

text \<open>
  \<^verbatim>\<open>enableAutoRotate\<close> and \<^verbatim>\<open>disableAutoRotate\<close> write the rotation configuration;
  the timers they start and stop deliver the ticks, which are calls of
  \<open>checkRotation\<close> and \<open>processPendingRedemptions\<close>.
\<close>

definition enableAutoRotate ::
  "DipArbService \<Rightarrow> (DipArbAutoRotateConfig \<Rightarrow> DipArbAutoRotateConfig) \<Rightarrow> DipArbService" where
  "enableAutoRotate s partial =
     s\<lparr> autoRotateConfig := (partial (autoRotateConfig s))\<lparr> enabled := True \<rparr> \<rparr>"

definition disableAutoRotate :: "DipArbService \<Rightarrow> DipArbService" where
  "disableAutoRotate s = s\<lparr> autoRotateConfig := (autoRotateConfig s)\<lparr> enabled := False \<rparr> \<rparr>"

text \<open>
  \<^verbatim>\<open>rotateToNextMarket\<close>; \<open>found\<close> is what \<^verbatim>\<open>findNextMarket\<close> answers, \<open>tSwap\<close>
  the clock while the engine is stopped and restarted. The event reads
  \<^verbatim>\<open>this.market?.conditionId\<close> after \<^verbatim>\<open>start\<close> has returned.
\<close>

definition rotateToNextMarket ::
  "DipArbService \<Rightarrow> DipArbMarketConfig option \<Rightarrow> real
     \<Rightarrow> DipArbError + (DipArbMarketConfig option \<times> DipArbService)" where
  "rotateToNextMarket s found tSwap =
     (if enabled (autoRotateConfig s) then
        (case found of
           None \<Rightarrow> Inr (None, s)
         | Some nm \<Rightarrow>
            (case start (stop s tSwap) nm tSwap of
               Inl e \<Rightarrow> Inl e
             | Inr s' \<Rightarrow>
                 Inr (Some nm,
                      emit s' (Rotate \<lparr> previousMarket = map_option conditionId (market s'),
                                        newMarket = conditionId nm, reason = manual,
                                        rot_timestamp = tSwap \<rparr>))))
      else Inr (None, s))"

text \<open>
  The swap at the end of \<^verbatim>\<open>checkRotation\<close>: stop, start on the successor, emit the
  event with the market held before the swap. \<^verbatim>\<open>startRotateCheck\<close>, called in between,
  restarts the timer (not part of the state) and runs \<^verbatim>\<open>checkRotation\<close> once more
  without awaiting it: that run is a tick of its own, on the new market.
\<close>

definition rotateAtEnd ::
  "DipArbService \<Rightarrow> DipArbMarketConfig \<Rightarrow> DipArbMarketConfig \<Rightarrow> real
     \<Rightarrow> DipArbError + DipArbService" where
  "rotateAtEnd s prev nm tSwap =
     (case start (stop s tSwap) nm tSwap of
        Inl e \<Rightarrow> Inl e
      | Inr s' \<Rightarrow>
          Inr (emit s' (Rotate \<lparr> previousMarket = Some (conditionId prev),
                                newMarket = conditionId nm, reason = marketEnded,
                                rot_timestamp = tSwap \<rparr>)))"

text \<open>The settlement step of \<^verbatim>\<open>checkRotation\<close> when the market has ended.\<close>

definition settleAtEnd ::
  "DipArbService \<Rightarrow> DipArbMarketConfig \<Rightarrow> real \<Rightarrow> OrderResult \<Rightarrow> OrderResult \<Rightarrow> DipArbService" where
  "settleAtEnd s m now ord1 ord2 =
     (case currentRound s of
        None \<Rightarrow> s
      | Some r \<Rightarrow>
          if autoSettle (autoRotateConfig s) \<and> leg1 r \<noteq> None then
            (if settleStrategy (autoRotateConfig s) = redeem
             then addPendingRedemption s m r now
             else emit s (Settled (settle s sell NotResolved ord1 ord2)))
          else s)"

text \<open>
  \<^verbatim>\<open>checkRotation\<close>; \<open>preload\<close> and \<open>search\<close> are the answers of the two calls of
  \<^verbatim>\<open>findNextMarket\<close> (made only on the paths that reach them), \<open>ord1\<close> and \<open>ord2\<close> the
  answers to the two sell orders of the sell strategy.
\<close>

definition checkRotation ::
  "DipArbService \<Rightarrow> real \<Rightarrow> real \<Rightarrow> DipArbMarketConfig option \<Rightarrow> DipArbMarketConfig option
     \<Rightarrow> OrderResult \<Rightarrow> OrderResult \<Rightarrow> DipArbError + DipArbService" where
  "checkRotation s now tSwap preload search ord1 ord2 =
     (case market s of
        None \<Rightarrow> Inr s
      | Some m \<Rightarrow>
          if enabled (autoRotateConfig s) then
            let timeUntilEnd = endTime m - now;
                pre = preloadMinutes (autoRotateConfig s);
                preloadMs = (if pre = 0 then 2 else pre) * 60 * 1000;
                s1 = (if timeUntilEnd \<le> preloadMs \<and> nextMarket s = None
                      then s\<lparr> nextMarket := preload \<rparr> else s)
            in if timeUntilEnd \<le> 0 then
                 let s2 = settleAtEnd s1 m now ord1 ord2
                 in (case nextMarket s2 of
                       Some nm \<Rightarrow> rotateAtEnd (s2\<lparr> nextMarket := None \<rparr>) m nm tSwap
                     | None \<Rightarrow>
                        (case search of
                           Some nm \<Rightarrow> rotateAtEnd s2 m nm tSwap
                         | None \<Rightarrow> Inr (stop s2 tSwap)))
               else Inr s1
          else Inr s)"


subsection \<open>The phase order of the specification\<close>


subsection \<open>The dip signal of the specification\<close>



section \<open>Scenarios\<close>

text \<open>
  Concrete runs of the engine, used to evaluate the code at explicit inputs. A market
  of fifteen minutes that ends at 900 s, its successor, and a one-level ask ladder.
\<close>

definition demoMarket :: DipArbMarketConfig where
  "demoMarket =
     \<lparr> mk_name = ''BTC Up or Down'', slug = ''btc-updown-15m-0'', conditionId = ''0xc1'',
       upTokenId = ''up1'', downTokenId = ''down1'', underlying = BTC,
       durationMinutes = 15, endTime = 900000 \<rparr>"

definition nextDemoMarket :: DipArbMarketConfig where
  "nextDemoMarket =
     \<lparr> mk_name = ''BTC Up or Down (next)'', slug = ''btc-updown-15m-900'', conditionId = ''0xc2'',
       upTokenId = ''up2'', downTokenId = ''down2'', underlying = BTC,
       durationMinutes = 15, endTime = 1800000 \<rparr>"

definition askBook :: "string \<Rightarrow> real \<Rightarrow> OrderbookSnapshot" where
  "askBook tok p =
     \<lparr> snap_tokenId = tok, snap_bids = [], snap_asks = [\<lparr> lv_price = p, lv_size = 100 \<rparr>] \<rparr>"

text \<open>
  Scenario "hedged": a service with a wallet and \<^verbatim>\<open>autoExecute\<close> on. UP opens at 0.50
  (t = 0), DOWN at 0.50 (t = 100 ms), UP drops to 0.35 (t = 3200 ms): Leg1 is bought at
  0.357. At t = 30 s DOWN is offered at 0.58 and Leg2 is bought.
\<close>

definition hedged_0 :: DipArbService where
  "hedged_0 = projr (start (updateConfig (newDipArbService True True 0)
                                (\<lambda>c. c\<lparr> autoExecute := True \<rparr>)) demoMarket 0)"

definition hedged_1 :: DipArbService where
  "hedged_1 = handleOrderbookUpdate hedged_0 (askBook ''up1'' 0.50) 0 OrderOk"

definition hedged_2 :: DipArbService where
  "hedged_2 = handleOrderbookUpdate hedged_1 (askBook ''down1'' 0.50) 100 OrderOk"

definition hedged_3 :: DipArbService where
  "hedged_3 = handleOrderbookUpdate hedged_2 (askBook ''up1'' 0.35) 3200 OrderOk"

definition hedged_4 :: DipArbService where
  "hedged_4 = handleOrderbookUpdate hedged_3 (askBook ''down1'' 0.58) 30000 OrderOk"


definition hedged_leg2_signal :: DipArbLeg2Signal where
  "hedged_leg2_signal =
     \<lparr> l2_roundId = (''btc-updown-15m-0'', 0), hedgeSide = DOWN,
       l2_leg1 = \<lparr> leg_side = UP, leg_price = 0.357, leg_shares = 20,
                   leg_timestamp = 3200, leg_tokenId = ''up1'' \<rparr>,
       l2_currentPrice = 0.58, l2_targetPrice = 0.5916, l2_totalCost = 0.9486,
       expectedProfitRate = 257 / 4743, l2_shares = 20, l2_tokenId = ''down1'' \<rparr>"



text \<open>The Leg1 signal that the run emitted at t = 3200 ms.\<close>

definition hedged_leg1_signal :: DipArbLeg1Signal where
  "hedged_leg1_signal =
     \<lparr> l1_roundId = (''btc-updown-15m-0'', 0), dipSide = UP, l1_currentPrice = 0.35,
       openPrice = 0.5, dropPercent = 0.3, l1_targetPrice = 0.357, l1_shares = 20,
       l1_tokenId = ''up1'', oppositeAsk = 0.5, estimatedTotalCost = 0.857,
       estimatedProfitRate = 143 / 857, source = dip, btcInfo = None \<rparr>"

text \<open>
  Scenario "watch": the default configuration (\<^verbatim>\<open>autoExecute\<close> off) and no wallet.
  The same three updates, then one more DOWN update 50 ms after the dip.
\<close>

definition watch_0 :: DipArbService where
  "watch_0 = projr (start (newDipArbService False False 0) demoMarket 0)"

definition watch_1 :: DipArbService where
  "watch_1 = handleOrderbookUpdate watch_0 (askBook ''up1'' 0.50) 0 OrderOk"

definition watch_2 :: DipArbService where
  "watch_2 = handleOrderbookUpdate watch_1 (askBook ''down1'' 0.50) 100 OrderOk"

definition watch_3 :: DipArbService where
  "watch_3 = handleOrderbookUpdate watch_2 (askBook ''up1'' 0.35) 3200 OrderOk"

definition watch_4 :: DipArbService where
  "watch_4 = handleOrderbookUpdate watch_3 (askBook ''down1'' 0.50) 3250 OrderOk"

text \<open>The Leg1 signals of one round in an event log.\<close>

fun leg1SignalsOf :: "RoundId \<Rightarrow> DipArbEvent list \<Rightarrow> DipArbLeg1Signal list" where
  "leg1SignalsOf rid [] = []"
| "leg1SignalsOf rid (Signal (Leg1 g) # es) =
     (if l1_roundId g = rid then g # leg1SignalsOf rid es else leg1SignalsOf rid es)"
| "leg1SignalsOf rid (e # es) = leg1SignalsOf rid es"






text \<open>
  Scenario "oracle": the oracle reports 100 before the round opens and 105 after; the
  asks stay at 0.50 and the ring holds nothing older than 100 ms.
\<close>

definition oracle_0 :: DipArbService where
  "oracle_0 = handleChainlinkPriceUpdate watch_0 \<lparr> cp_symbol = ''BTC/USD'', cp_price = 100 \<rparr>"

definition oracle_1 :: DipArbService where
  "oracle_1 = handleOrderbookUpdate oracle_0 (askBook ''up1'' 0.50) 0 OrderOk"

definition oracle_2 :: DipArbService where
  "oracle_2 = handleOrderbookUpdate oracle_1 (askBook ''down1'' 0.50) 100 OrderOk"

definition oracle_3 :: DipArbService where
  "oracle_3 = handleChainlinkPriceUpdate oracle_2 \<lparr> cp_symbol = ''BTC/USD'', cp_price = 105 \<rparr>"

text \<open>The third orderbook update (t = 200 ms), and the state in which it runs the detector.\<close>

definition oracle_5 :: DipArbService where
  "oracle_5 = handleOrderbookUpdate oracle_3 (askBook ''up1'' 0.50) 200 OrderOk"


definition oracle_4 :: DipArbService where
  "oracle_4 = checkAndStartNewRound
                (recordPriceHistory (oracle_3\<lparr> upAsks := snap_asks (askBook ''up1'' 0.50) \<rparr>) 200) 200"

text \<open>
  Scenario "unfunded": a trading service but no private key, so no settlement client;
  rotation enabled with the redeem strategy. Leg1 is bought as in "hedged"; at the market
  end (t = 900 s) the rotation tick queues the position and swaps to the successor.
  Then the redemption ticker runs every 30 s from t = 1200 s on, 25 times.
\<close>

definition unfunded_0 :: DipArbService where
  "unfunded_0 = projr (start (enableAutoRotate
                                (updateConfig (newDipArbService True False 0)
                                   (\<lambda>c. c\<lparr> autoExecute := True \<rparr>)) (\<lambda>c. c)) demoMarket 0)"

definition unfunded_3 :: DipArbService where
  "unfunded_3 =
     handleOrderbookUpdate
       (handleOrderbookUpdate
          (handleOrderbookUpdate unfunded_0 (askBook ''up1'' 0.50) 0 OrderOk)
          (askBook ''down1'' 0.50) 100 OrderOk)
       (askBook ''up1'' 0.35) 3200 OrderOk"

definition unfunded_rotated :: DipArbService where
  "unfunded_rotated =
     projr (checkRotation unfunded_3 900000 900001 (Some nextDemoMarket) None OrderOk OrderOk)"

definition ticks25 :: "(real \<times> (string \<Rightarrow> CtfAnswer)) list" where
  "ticks25 = map (\<lambda>k. (1200000 + 30000 * real k, (\<lambda>c. NotResolved))) [0..<25]"

text \<open>
  Scenario "rotation": the completed run "hedged" with rotation enabled afterwards; the
  rotation tick at the market end, and a manual rotation at t = 600 s.
\<close>

definition rotation_ready :: DipArbService where
  "rotation_ready = enableAutoRotate hedged_4 (\<lambda>c. c)"


section \<open>Theorems\<close>

subsection \<open>Orderbook service\<close>







subsection \<open>Evaluating the scenarios\<close>

lemmas scenario_defs =
  start_def stop_def emit_def updateConfig_def newDipArbService_def enableAutoRotate_def
  DEFAULT_DIP_ARB_CONFIG_def DEFAULT_AUTO_ROTATE_CONFIG_def createDipArbInitialStats_def
  createDipArbRoundState_def calculateDipArbProfitRate_def estimateUpWinRate_def
  detectMispricing_def recordPriceHistory_def getPriceFromHistory_def startNewRound_def
  checkRoundExpiration_def roundIsOver_def checkAndStartNewRound_def createLeg1Signal_def
  validateSignalProfitability_def accepted_def instantDip_def instantSurge_def mispriced_def
  detectLeg1Signal_def detectLeg2Signal_def detectSignal_def executionFailed_def
  executeLeg1_def executeLeg2_def handleSignal_def handleOrderbookUpdate_def
  handleChainlinkPriceUpdate_def underlyingName_def
  firstPriceNullish_def MAX_HISTORY_LENGTH_def demoMarket_def nextDemoMarket_def askBook_def Let_def

lemma hedged_3_eq:
  "hedged_3 =
     \<lparr> hasTradingService = True, hasCtf = True,
       config = DEFAULT_DIP_ARB_CONFIG\<lparr> autoExecute := True \<rparr>,
       autoRotateConfig = DEFAULT_AUTO_ROTATE_CONFIG,
       market = Some demoMarket,
       currentRound =
         Some \<lparr> roundId = (''btc-updown-15m-0'', 0), startTime = 0, rd_endTime = 900000,
                priceToBeat = 0, openPrices_up = 1 / 2, openPrices_down = 1 / 2,
                phase = leg1_filled,
                leg1 = Some \<lparr> leg_side = UP, leg_price = 357 / 1000, leg_shares = 20,
                              leg_timestamp = 3200, leg_tokenId = ''up1'' \<rparr>,
                leg2 = None, totalCost = None, profit = None \<rparr>,
       isRunning = True, isExecuting = False, lastExecutionTime = 3200,
       stats = \<lparr> st_startTime = 0, runningTimeMs = 0, roundsMonitored = 1,
                 roundsCompleted = 0, roundsSuccessful = 0, roundsExpired = 0,
                 signalsDetected = 1, leg1Filled = 1, leg2Filled = 0,
                 totalSpent = 0, totalProfit = 0, avgProfitRate = 0 \<rparr>,
       nextMarket = None, pendingRedemptions = [],
       upAsks = [\<lparr> lv_price = 7 / 20, lv_size = 100 \<rparr>],
       downAsks = [\<lparr> lv_price = 1 / 2, lv_size = 100 \<rparr>],
       priceHistory =
         [\<lparr> pp_timestamp = 100, pp_upAsk = 1 / 2, pp_downAsk = 1 / 2 \<rparr>,
          \<lparr> pp_timestamp = 3200, pp_upAsk = 7 / 20, pp_downAsk = 1 / 2 \<rparr>],
       currentUnderlyingPrice = 0, leg1SignalEmitted = False,
       emitted =
         [Started demoMarket,
          NewRound \<lparr> nr_roundId = (''btc-updown-15m-0'', 0), nr_priceToBeat = 0,
                     upOpen = 1 / 2, downOpen = 1 / 2, nr_startTime = 0,
                     nr_endTime = 900000 \<rparr>,
          Signal (Leg1 hedged_leg1_signal),
          Execution \<lparr> ex_success = True, ex_leg = exec_leg1,
                      ex_roundId = (''btc-updown-15m-0'', 0), ex_side = Some UP,
                      ex_price = Some (357 / 1000), ex_shares = Some 20 \<rparr>] \<rparr>"
  unfolding hedged_3_def hedged_2_def hedged_1_def hedged_0_def
  by (simp add: scenario_defs hedged_leg1_signal_def)

lemma hedged_4_eq:
  "hedged_4 =
     hedged_3\<lparr> downAsks := [\<lparr> lv_price = 29 / 50, lv_size = 100 \<rparr>],
                priceHistory := priceHistory hedged_3 @
                  [\<lparr> pp_timestamp = 30000, pp_upAsk = 7 / 20, pp_downAsk = 29 / 50 \<rparr>],
                currentRound :=
                  Some \<lparr> roundId = (''btc-updown-15m-0'', 0), startTime = 0,
                         rd_endTime = 900000, priceToBeat = 0, openPrices_up = 1 / 2,
                         openPrices_down = 1 / 2, phase = completed,
                         leg1 = Some \<lparr> leg_side = UP, leg_price = 357 / 1000, leg_shares = 20,
                                       leg_timestamp = 3200, leg_tokenId = ''up1'' \<rparr>,
                         leg2 = Some \<lparr> leg_side = DOWN, leg_price = 1479 / 2500,
                                       leg_shares = 20, leg_timestamp = 30000,
                                       leg_tokenId = ''down1'' \<rparr>,
                         totalCost = Some (4743 / 5000), profit = Some (257 / 5000) \<rparr>,
                lastExecutionTime := 30000,
                stats := \<lparr> st_startTime = 0, runningTimeMs = 0, roundsMonitored = 1,
                           roundsCompleted = 0, roundsSuccessful = 1, roundsExpired = 0,
                           signalsDetected = 2, leg1Filled = 1, leg2Filled = 1,
                           totalSpent = 4743 / 250, totalProfit = 257 / 250,
                           avgProfitRate = 0 \<rparr>,
                emitted := emitted hedged_3 @
                  [Signal (Leg2 hedged_leg2_signal),
                   RoundComplete
                     \<lparr> rr_roundId = (''btc-updown-15m-0'', 0), rr_status = status_completed,
                       rr_leg1 = Some \<lparr> leg_side = UP, leg_price = 357 / 1000, leg_shares = 20,
                                        leg_timestamp = 3200, leg_tokenId = ''up1'' \<rparr>,
                       rr_leg2 = Some \<lparr> leg_side = DOWN, leg_price = 1479 / 2500,
                                        leg_shares = 20, leg_timestamp = 30000,
                                        leg_tokenId = ''down1'' \<rparr>,
                       rr_totalCost = Some (4743 / 5000), rr_profit = Some (257 / 5000),
                       rr_profitRate = Some (257 / 4743), rr_merged = False \<rparr>,
                   Execution \<lparr> ex_success = True, ex_leg = exec_leg2,
                               ex_roundId = (''btc-updown-15m-0'', 0), ex_side = Some DOWN,
                               ex_price = Some (1479 / 2500), ex_shares = Some 20 \<rparr>] \<rparr>"
  unfolding hedged_4_def hedged_3_eq
  by (simp add: scenario_defs hedged_leg2_signal_def)

lemma watch_2_eq:
  "watch_2 =
     \<lparr> hasTradingService = False, hasCtf = False,
       config = DEFAULT_DIP_ARB_CONFIG,
       autoRotateConfig = DEFAULT_AUTO_ROTATE_CONFIG,
       market = Some demoMarket,
       currentRound =
         Some \<lparr> roundId = (''btc-updown-15m-0'', 0), startTime = 0, rd_endTime = 900000,
                priceToBeat = 0, openPrices_up = 1 / 2, openPrices_down = 1 / 2,
                phase = waiting, leg1 = None, leg2 = None, totalCost = None, profit = None \<rparr>,
       isRunning = True, isExecuting = False, lastExecutionTime = 0,
       stats = \<lparr> st_startTime = 0, runningTimeMs = 0, roundsMonitored = 1,
                 roundsCompleted = 0, roundsSuccessful = 0, roundsExpired = 0,
                 signalsDetected = 0, leg1Filled = 0, leg2Filled = 0,
                 totalSpent = 0, totalProfit = 0, avgProfitRate = 0 \<rparr>,
       nextMarket = None, pendingRedemptions = [],
       upAsks = [\<lparr> lv_price = 1 / 2, lv_size = 100 \<rparr>],
       downAsks = [\<lparr> lv_price = 1 / 2, lv_size = 100 \<rparr>],
       priceHistory = [\<lparr> pp_timestamp = 100, pp_upAsk = 1 / 2, pp_downAsk = 1 / 2 \<rparr>],
       currentUnderlyingPrice = 0, leg1SignalEmitted = False,
       emitted =
         [Started demoMarket,
          NewRound \<lparr> nr_roundId = (''btc-updown-15m-0'', 0), nr_priceToBeat = 0,
                     upOpen = 1 / 2, downOpen = 1 / 2, nr_startTime = 0,
                     nr_endTime = 900000 \<rparr>] \<rparr>"
  unfolding watch_2_def watch_1_def watch_0_def
  by (simp add: scenario_defs)

lemma watch_3_eq:
  "watch_3 =
     watch_2\<lparr> upAsks := [\<lparr> lv_price = 7 / 20, lv_size = 100 \<rparr>],
               priceHistory := priceHistory watch_2 @
                 [\<lparr> pp_timestamp = 3200, pp_upAsk = 7 / 20, pp_downAsk = 1 / 2 \<rparr>],
               stats := (stats watch_2)\<lparr> signalsDetected := 1 \<rparr>,
               emitted := emitted watch_2 @ [Signal (Leg1 hedged_leg1_signal)] \<rparr>"
  unfolding watch_3_def watch_2_eq
  by (simp add: scenario_defs hedged_leg1_signal_def)

lemma watch_4_eq:
  "watch_4 =
     watch_3\<lparr> priceHistory := priceHistory watch_3 @
                 [\<lparr> pp_timestamp = 3250, pp_upAsk = 7 / 20, pp_downAsk = 1 / 2 \<rparr>],
               stats := (stats watch_3)\<lparr> signalsDetected := 2 \<rparr>,
               emitted := emitted watch_3 @ [Signal (Leg1 hedged_leg1_signal)] \<rparr>"
  unfolding watch_4_def watch_3_eq watch_2_eq
  by (simp add: scenario_defs hedged_leg1_signal_def)

subsection \<open>Leg2 admission\<close>








subsection \<open>Statistics counters\<close>

lemma executeLeg2_counters:
  assumes "currentRound s = Some r" and "hasTradingService s" and "market s = Some m"
  shows "roundsSuccessful (stats (snd (executeLeg2 s sig now OrderOk)))
           = roundsSuccessful (stats s) + 1"
    and "roundsCompleted (stats (snd (executeLeg2 s sig now OrderOk)))
           = roundsCompleted (stats s)"
    and "map_option phase (currentRound (snd (executeLeg2 s sig now OrderOk))) = Some completed"
  using assms by (simp_all add: executeLeg2_def emit_def Let_def)

lemma checkRoundExpiration_counters:
  assumes "currentRound s = Some r" and "phase r = leg1_filled"
      and "leg1 r = Some l" and "leg_timestamp l \<noteq> 0"
      and "(now - leg_timestamp l) / 1000 > leg2TimeoutSeconds (config s)"
  shows "roundsCompleted (stats (checkRoundExpiration s now)) = roundsCompleted (stats s) + 1"
    and "roundsExpired (stats (checkRoundExpiration s now)) = roundsExpired (stats s) + 1"
  using assms by (simp_all add: checkRoundExpiration_def emit_def Let_def)

text \<open>
  C2 (the code at the failing input). Scenario "hedged" runs one round to a successful
  Leg2 fill: the round is in phase \<open>completed\<close>, \<open>roundsSuccessful\<close> is 1 and
  \<open>roundsCompleted\<close> is still 0, so \<open>roundsSuccessful \<le> roundsCompleted\<close> is broken.
  The expiry path increments \<open>roundsCompleted\<close> (lemma \<open>checkRoundExpiration_counters\<close>);
  the success path does not (lemma \<open>executeLeg2_counters\<close>).
\<close>

theorem successful_round_not_counted_completed:
  "map_option phase (currentRound hedged_4) = Some completed
   \<and> roundsMonitored (stats hedged_4) = 1
   \<and> roundsSuccessful (stats hedged_4) = 1
   \<and> roundsCompleted (stats hedged_4) = 0
   \<and> \<not> roundsSuccessful (stats hedged_4) \<le> roundsCompleted (stats hedged_4)"
  unfolding hedged_4_eq by simp

subsection \<open>Repeated Leg1 signals\<close>

lemma detectSignal_ignores_latch:
  "detectSignal (s\<lparr> leg1SignalEmitted := b \<rparr>) now = detectSignal s now"
  by (simp add: detectSignal_def detectLeg1Signal_def detectLeg2Signal_def
        getPriceFromHistory_def instantDip_def instantSurge_def mispriced_def accepted_def
        createLeg1Signal_def validateSignalProfitability_def Let_def
      cong: option.case_cong if_cong)

lemma handleSignal_latch:
  "leg1SignalEmitted (handleSignal s sig now ord) = leg1SignalEmitted s"
  by (cases sig)
     (auto simp add: handleSignal_def executeLeg1_def executeLeg2_def emit_def Let_def
        split: option.splits OrderResult.splits)

text \<open>
  C3 (the code at the failing input). Scenario "watch": in one round, still in phase
  \<open>waiting\<close>, the update at t = 3200 ms and the update at t = 3250 ms each emit a Leg1
  signal. The latch \<open>leg1SignalEmitted\<close> is false before and after: no handler sets it
  (lemma \<open>handleSignal_latch\<close>) and the detector does not read it
  (lemma \<open>detectSignal_ignores_latch\<close>).
\<close>

theorem leg1_signal_emitted_twice_in_round:
  "map_option roundId (currentRound watch_4) = Some (''btc-updown-15m-0'', 0)
   \<and> map_option phase (currentRound watch_4) = Some waiting
   \<and> roundsMonitored (stats watch_4) = 1
   \<and> length (leg1SignalsOf (''btc-updown-15m-0'', 0) (emitted watch_2)) = 0
   \<and> length (leg1SignalsOf (''btc-updown-15m-0'', 0) (emitted watch_3)) = 1
   \<and> length (leg1SignalsOf (''btc-updown-15m-0'', 0) (emitted watch_4)) = 2
   \<and> leg1SignalEmitted watch_3 = False \<and> leg1SignalEmitted watch_4 = False"
  unfolding watch_4_eq watch_3_eq watch_2_eq
  by (simp add: hedged_leg1_signal_def)

subsection \<open>Leg1 dip admission\<close>

lemma scanBack_append:
  "scanBack t (xs @ ys) = (case scanBack t xs of Some e \<Rightarrow> Some e | None \<Rightarrow> scanBack t ys)"
  by (induction xs) auto

text \<open>
  The reference is the most recent ring entry at or before the target time: the last
  one among the entries with a timestamp at or before it.
\<close>

lemma scanBack_most_recent:
  "scanBack t (rev h) =
     (if filter (\<lambda>e. pp_timestamp e \<le> t) h = [] then None
      else Some (last (filter (\<lambda>e. pp_timestamp e \<le> t) h)))"
  by (induction h rule: rev_induct) (auto simp add: scanBack_append)










subsection \<open>Detection without a ring reference\<close>

lemma scanBack_None:
  "\<forall>e\<in>set xs. t < pp_timestamp e \<Longrightarrow> scanBack t xs = None"
  by (induction xs) auto

lemma getPriceFromHistory_None:
  assumes "\<forall>e\<in>set (priceHistory s). now - msAgo < pp_timestamp e"
  shows "getPriceFromHistory s side msAgo now = None"
  using assms by (simp add: getPriceFromHistory_def scanBack_None)

lemma mispriced_source:
  "mispriced s side p opp w = Some sig \<Longrightarrow> source sig = mispricing"
  by (auto simp add: mispriced_def accepted_def createLeg1Signal_def Let_def
        split: option.splits if_splits)

lemma firstSignal_two:
  "firstSignal [a, b] = Some x \<Longrightarrow> a = Some x \<or> b = Some x"
  by (cases a; cases b) auto

lemma firstSignal_one: "firstSignal [a] = a"
  by (cases a) auto

text \<open>
  C6 (amended). If no ring entry has a timestamp at or before \<open>now - slidingWindowMs\<close>,
  the ring gives no reference for either side and the waiting-phase detector produces
  no dip and no surge signal: it returns null, or a signal with source \<open>mispricing\<close>,
  and the latter only when the price to beat and the oracle price are both positive.
\<close>

theorem no_reference_only_mispricing:
  assumes "\<forall>e\<in>set (priceHistory s). now - slidingWindowMs (config s) < pp_timestamp e"
  shows "getPriceFromHistory s UP (slidingWindowMs (config s)) now = None
       \<and> getPriceFromHistory s DOWN (slidingWindowMs (config s)) now = None
       \<and> (\<forall>sig. detectLeg1Signal s now = Some sig \<longrightarrow>
             source sig = mispricing \<and> 0 < currentUnderlyingPrice s
           \<and> (\<exists>r. currentRound s = Some r \<and> 0 < priceToBeat r))
       \<and> (\<forall>sig. detectSignal s now = Some (Leg1 sig) \<longrightarrow> source sig = mispricing)"
proof -
  note none = getPriceFromHistory_None [OF assms]
  have main: "source sig = mispricing \<and> 0 < currentUnderlyingPrice s
           \<and> (\<exists>r. currentRound s = Some r \<and> 0 < priceToBeat r)"
    if "detectLeg1Signal s now = Some sig" for sig
    using that
    by (auto simp add: detectLeg1Signal_def Let_def none instantDip_def firstSignal_one
          split: option.splits if_splits dest!: firstSignal_two dest: mispriced_source)
  have "source sig = mispricing" if "detectSignal s now = Some (Leg1 sig)" for sig
  proof -
    from that have "detectLeg1Signal s now = Some sig"
      by (auto simp add: detectSignal_def split: option.splits if_splits)
    with main show ?thesis by blast
  qed
  with main none show ?thesis by blast
qed

lemma oracle_4_eq:
  "oracle_4 =
     \<lparr> hasTradingService = False, hasCtf = False,
       config = DEFAULT_DIP_ARB_CONFIG,
       autoRotateConfig = DEFAULT_AUTO_ROTATE_CONFIG,
       market = Some demoMarket,
       currentRound =
         Some \<lparr> roundId = (''btc-updown-15m-0'', 0), startTime = 0, rd_endTime = 900000,
                priceToBeat = 100, openPrices_up = 1 / 2, openPrices_down = 1 / 2,
                phase = waiting, leg1 = None, leg2 = None, totalCost = None, profit = None \<rparr>,
       isRunning = True, isExecuting = False, lastExecutionTime = 0,
       stats = \<lparr> st_startTime = 0, runningTimeMs = 0, roundsMonitored = 1,
                 roundsCompleted = 0, roundsSuccessful = 0, roundsExpired = 0,
                 signalsDetected = 0, leg1Filled = 0, leg2Filled = 0,
                 totalSpent = 0, totalProfit = 0, avgProfitRate = 0 \<rparr>,
       nextMarket = None, pendingRedemptions = [],
       upAsks = [\<lparr> lv_price = 1 / 2, lv_size = 100 \<rparr>],
       downAsks = [\<lparr> lv_price = 1 / 2, lv_size = 100 \<rparr>],
       priceHistory = [\<lparr> pp_timestamp = 100, pp_upAsk = 1 / 2, pp_downAsk = 1 / 2 \<rparr>,
                       \<lparr> pp_timestamp = 200, pp_upAsk = 1 / 2, pp_downAsk = 1 / 2 \<rparr>],
       currentUnderlyingPrice = 105, leg1SignalEmitted = False,
       emitted =
         [Started demoMarket,
          NewRound \<lparr> nr_roundId = (''btc-updown-15m-0'', 0), nr_priceToBeat = 100,
                     upOpen = 1 / 2, downOpen = 1 / 2, nr_startTime = 0,
                     nr_endTime = 900000 \<rparr>,
          PriceUpdate \<lparr> pu_underlying = BTC, pu_value = 105, pu_priceToBeat = 100,
                        changePercent = 5 \<rparr>] \<rparr>"
  unfolding oracle_4_def oracle_3_def oracle_2_def oracle_1_def oracle_0_def watch_0_def
  by (simp add: scenario_defs)

lemma oracle_4_detect:
  "detectLeg1Signal oracle_4 200 =
     Some \<lparr> l1_roundId = (''btc-updown-15m-0'', 0), dipSide = UP, l1_currentPrice = 0.5,
            openPrice = 0.5, dropPercent = 0.45, l1_targetPrice = 0.51, l1_shares = 20,
            l1_tokenId = ''up1'', oppositeAsk = 0.5, estimatedTotalCost = 1.01,
            estimatedProfitRate = 0, source = mispricing,
            btcInfo = Some \<lparr> btcPrice = 105, bi_priceToBeat = 100, btcChangePercent = 5,
                             estimatedWinRate = 0.95 \<rparr> \<rparr>"
  unfolding oracle_4_eq by (simp add: scenario_defs)

text \<open>
  Scenario "oracle": the ring holds the timestamps 100 and 200, the window reaches back
  to \<open>200 - 3000\<close>; the detector returns a signal, and its source is \<open>mispricing\<close>.
\<close>

theorem no_reference_only_mispricing_witness:
  "map pp_timestamp (priceHistory oracle_4) = [100, 200]
   \<and> slidingWindowMs (config oracle_4) = 3000
   \<and> getPriceFromHistory oracle_4 UP (slidingWindowMs (config oracle_4)) 200 = None
   \<and> (\<exists>sig. detectLeg1Signal oracle_4 200 = Some sig \<and> source sig = mispricing)
   \<and> 0 < currentUnderlyingPrice oracle_4"
proof -
  have h: "\<forall>e\<in>set (priceHistory oracle_4).
             200 - slidingWindowMs (config oracle_4) < pp_timestamp e"
    by (simp add: oracle_4_eq DEFAULT_DIP_ARB_CONFIG_def)
  note t = no_reference_only_mispricing [OF h]
  obtain sig where s: "detectLeg1Signal oracle_4 200 = Some sig"
    using oracle_4_detect by blast
  with t have "source sig = mispricing" "0 < currentUnderlyingPrice oracle_4"
    by blast+
  moreover have "map pp_timestamp (priceHistory oracle_4) = [100, 200]"
      "slidingWindowMs (config oracle_4) = 3000"
    by (simp_all add: oracle_4_eq DEFAULT_DIP_ARB_CONFIG_def)
  ultimately show ?thesis using t s by blast
qed

lemma oracle_3_eq:
  "oracle_3 = oracle_4\<lparr> priceHistory := [\<lparr> pp_timestamp = 100, pp_upAsk = 1 / 2, pp_downAsk = 1 / 2 \<rparr>] \<rparr>"
  unfolding oracle_4_eq
  unfolding oracle_3_def oracle_2_def oracle_1_def oracle_0_def watch_0_def
  by (simp add: scenario_defs)

lemma oracle_5_eq:
  "oracle_5 =
     oracle_4\<lparr> stats := (stats oracle_4)\<lparr> signalsDetected := 1 \<rparr>,
                emitted := emitted oracle_4 @
                  [Signal (Leg1
                     \<lparr> l1_roundId = (''btc-updown-15m-0'', 0), dipSide = UP, l1_currentPrice = 0.5,
                       openPrice = 0.5, dropPercent = 0.45, l1_targetPrice = 0.51, l1_shares = 20,
                       l1_tokenId = ''up1'', oppositeAsk = 0.5, estimatedTotalCost = 1.01,
                       estimatedProfitRate = 0, source = mispricing,
                       btcInfo = Some \<lparr> btcPrice = 105, bi_priceToBeat = 100,
                                        btcChangePercent = 5, estimatedWinRate = 0.95 \<rparr> \<rparr>)] \<rparr>"
  unfolding oracle_5_def oracle_3_eq oracle_4_eq
  by (simp add: scenario_defs)

text \<open>
  The claim as stated fails in the same scenario: no ring entry is at or before
  \<open>now - slidingWindowMs\<close>, neither side has a reference, and the third orderbook update
  emits a Leg1 signal (UP, by the mispricing pattern).
\<close>

theorem no_reference_counterexample:
  "map pp_timestamp (priceHistory oracle_4) = [100, 200]
   \<and> slidingWindowMs (config oracle_4) = 3000
   \<and> getPriceFromHistory oracle_4 UP 3000 200 = None
   \<and> getPriceFromHistory oracle_4 DOWN 3000 200 = None
   \<and> map_option phase (currentRound oracle_4) = Some waiting
   \<and> map_option dipSide (detectLeg1Signal oracle_4 200) = Some UP
   \<and> map_option source (detectLeg1Signal oracle_4 200) = Some mispricing
   \<and> length (leg1SignalsOf (''btc-updown-15m-0'', 0) (emitted oracle_3)) = 0
   \<and> length (leg1SignalsOf (''btc-updown-15m-0'', 0) (emitted oracle_5)) = 1"
  unfolding oracle_4_detect oracle_5_eq oracle_3_eq
  unfolding oracle_4_eq
  by (simp add: DEFAULT_DIP_ARB_CONFIG_def getPriceFromHistory_def)

subsection \<open>Statistics across a restart\<close>

lemma start_Inr:
  assumes "start s m now = Inr s'"
  shows "stats s' = createDipArbInitialStats now" and "priceHistory s' = []"
    and "market s' = Some m" and "isRunning s'"
    and "emitted s' = emitted s @ [Started m]"
  using assms by (auto simp add: start_def emit_def split: if_splits)

lemma stop_not_running: "\<not> isRunning (stop s now)"
  by (simp add: stop_def emit_def)

lemma rotateAtEnd_Inr:
  assumes "rotateAtEnd s prev nm t = Inr s'"
  shows "stats s' = createDipArbInitialStats t" and "priceHistory s' = []"
    and "market s' = Some nm" and "isRunning s'"
  using assms
  by (auto simp add: rotateAtEnd_def emit_def split: sum.splits dest: start_Inr)

text \<open>
  C9. A successful \<open>start\<close> replaces the statistics by the initial record (every
  counter and sum zero, start time the current clock) and empties the price history.
  So does the rotation tick at the market end: when it leaves the engine running, the
  engine was stopped and started on the successor, and whatever the statistics held
  before is gone.
\<close>

theorem start_resets_statistics:
  "(start s m now = Inr s' \<longrightarrow>
      stats s' = createDipArbInitialStats now \<and> priceHistory s' = []
    \<and> st_startTime (stats s') = now \<and> runningTimeMs (stats s') = 0
    \<and> roundsMonitored (stats s') = 0 \<and> roundsCompleted (stats s') = 0
    \<and> roundsSuccessful (stats s') = 0 \<and> roundsExpired (stats s') = 0
    \<and> signalsDetected (stats s') = 0 \<and> leg1Filled (stats s') = 0
    \<and> leg2Filled (stats s') = 0 \<and> totalSpent (stats s') = 0
    \<and> totalProfit (stats s') = 0 \<and> avgProfitRate (stats s') = 0)
   \<and> (market e = Some cur \<and> enabled (autoRotateConfig e) \<and> endTime cur \<le> tick
      \<and> checkRotation e tick tSwap preload search ord1 ord2 = Inr e' \<and> isRunning e' \<longrightarrow>
        stats e' = createDipArbInitialStats tSwap \<and> priceHistory e' = []
      \<and> market e' \<noteq> None)"
proof -
  have a: "stats s' = createDipArbInitialStats now \<and> priceHistory s' = []"
    if "start s m now = Inr s'"
    using start_Inr [OF that] by simp
  have b: "stats e' = createDipArbInitialStats tSwap \<and> priceHistory e' = [] \<and> market e' \<noteq> None"
    if "market e = Some cur" and "enabled (autoRotateConfig e)" and "endTime cur \<le> tick"
      and "checkRotation e tick tSwap preload search ord1 ord2 = Inr e'" and "isRunning e'"
    using that
    by (auto simp add: checkRotation_def Let_def stop_not_running
          split: option.splits if_splits dest: rotateAtEnd_Inr)
  from a b show ?thesis
    by (auto simp add: createDipArbInitialStats_def)
qed

lemma rotation_ready_eq:
  "rotation_ready =
     hedged_4\<lparr> autoRotateConfig := DEFAULT_AUTO_ROTATE_CONFIG\<lparr> enabled := True \<rparr> \<rparr>"
  unfolding rotation_ready_def hedged_4_eq hedged_3_eq
  by (simp add: enableAutoRotate_def)

text \<open>
  A first start, and the rotation tick at the market end of scenario "rotation": the
  statistics held one successful round and a profit of 1.028 before, and are the initial
  ones after.
\<close>

theorem start_resets_statistics_witness:
  "(\<exists>s'. start (newDipArbService True True 0) demoMarket 5 = Inr s'
         \<and> stats s' = createDipArbInitialStats 5 \<and> priceHistory s' = [])
   \<and> roundsSuccessful (stats rotation_ready) = 1 \<and> totalProfit (stats rotation_ready) = 257 / 250
   \<and> (\<exists>s''. checkRotation rotation_ready 900000 900001 (Some nextDemoMarket) None OrderOk OrderOk
               = Inr s''
          \<and> isRunning s'' \<and> market s'' = Some nextDemoMarket
          \<and> stats s'' = createDipArbInitialStats 900001
          \<and> roundsSuccessful (stats s'') = 0 \<and> totalProfit (stats s'') = 0)"
proof -
  obtain s' where s': "start (newDipArbService True True 0) demoMarket 5 = Inr s'"
    by (simp add: start_def newDipArbService_def demoMarket_def)
  obtain s'' where s'': "checkRotation rotation_ready 900000 900001 (Some nextDemoMarket) None
                           OrderOk OrderOk = Inr s''"
      and r: "isRunning s''" "market s'' = Some nextDemoMarket"
    unfolding rotation_ready_eq hedged_4_eq hedged_3_eq
    by (simp add: checkRotation_def settleAtEnd_def addPendingRedemption_def rotateAtEnd_def
          start_def stop_def emit_def DEFAULT_AUTO_ROTATE_CONFIG_def demoMarket_def
          nextDemoMarket_def Let_def)
  have h: "market rotation_ready = Some demoMarket" "enabled (autoRotateConfig rotation_ready)"
      "endTime demoMarket \<le> 900000"
    unfolding rotation_ready_eq hedged_4_eq hedged_3_eq
    by (simp_all add: demoMarket_def)
  have before: "roundsSuccessful (stats rotation_ready) = 1"
      "totalProfit (stats rotation_ready) = 257 / 250"
    unfolding rotation_ready_eq hedged_4_eq by simp_all
  note t = start_resets_statistics
             [where s = "newDipArbService True True 0" and m = demoMarket and now = 5
                and s' = s' and e = rotation_ready and cur = demoMarket and tick = 900000
                and tSwap = 900001 and preload = "Some nextDemoMarket" and search = None
                and ?ord1.0 = OrderOk and ?ord2.0 = OrderOk and e' = s'']
  from t s' have 1: "stats s' = createDipArbInitialStats 5 \<and> priceHistory s' = []"
    by blast
  from t h s'' r(1) have t2: "stats s'' = createDipArbInitialStats 900001"
    by blast
  then have 2: "roundsSuccessful (stats s'') = 0 \<and> totalProfit (stats s'') = 0"
    by (simp add: createDipArbInitialStats_def)
  from s' 1 before s'' r t2 2 show ?thesis by blast
qed

subsection \<open>The rotate event of the manual rotation\<close>

text \<open>
  C10. When \<open>rotateToNextMarket\<close> swaps to a market \<open>nm\<close>, the rotate event it emits (after
  the \<open>started\<close> event of the new market) has \<open>previousMarket\<close> equal to the condition id
  of \<open>nm\<close>, the market just started, and hence equal to its own \<open>newMarket\<close>.
\<close>

theorem manual_rotate_event_previous_is_new:
  assumes "rotateToNextMarket s found tSwap = Inr (Some nm, s')"
  shows "\<exists>ev. emitted s' = emitted (stop s tSwap) @ [Started nm, Rotate ev]
            \<and> market s' = Some nm
            \<and> newMarket ev = conditionId nm
            \<and> previousMarket ev = Some (conditionId nm)
            \<and> previousMarket ev = Some (newMarket ev)
            \<and> reason ev = manual"
proof -
  from assms obtain s1 where st: "start (stop s tSwap) nm tSwap = Inr s1"
    and s': "s' = emit s1 (Rotate \<lparr> previousMarket = map_option conditionId (market s1),
                                     newMarket = conditionId nm, reason = manual,
                                     rot_timestamp = tSwap \<rparr>)"
    by (auto simp add: rotateToNextMarket_def split: if_splits option.splits sum.splits)
  note si = start_Inr [OF st]
  show ?thesis
    unfolding s' using si(3,5) by (simp add: emit_def)
qed

text \<open>
  Scenario "rotation", rotated by hand at t = 600 s from market \<open>0xc1\<close> to \<open>0xc2\<close>: the
  event names \<open>0xc2\<close> as previous and as new market.
\<close>

theorem manual_rotate_event_previous_is_new_witness:
  "map_option conditionId (market rotation_ready) = Some ''0xc1''
   \<and> (\<exists>s' ev. rotateToNextMarket rotation_ready (Some nextDemoMarket) 600000
                 = Inr (Some nextDemoMarket, s')
          \<and> last (emitted s') = Rotate ev
          \<and> previousMarket ev = Some ''0xc2'' \<and> newMarket ev = ''0xc2'')"
proof -
  obtain s' where s': "rotateToNextMarket rotation_ready (Some nextDemoMarket) 600000
                         = Inr (Some nextDemoMarket, s')"
    unfolding rotation_ready_eq hedged_4_eq hedged_3_eq
    by (simp add: rotateToNextMarket_def start_def stop_def emit_def
          DEFAULT_AUTO_ROTATE_CONFIG_def nextDemoMarket_def)
  from manual_rotate_event_previous_is_new [OF s']
  obtain ev where ev: "emitted s' = emitted (stop rotation_ready 600000)
                         @ [Started nextDemoMarket, Rotate ev]"
      "previousMarket ev = Some (conditionId nextDemoMarket)"
      "newMarket ev = conditionId nextDemoMarket"
    by blast
  from ev(1) have "last (emitted s') = Rotate ev" by simp
  moreover have "conditionId nextDemoMarket = ''0xc2''"
    by (simp add: nextDemoMarket_def)
  moreover have "map_option conditionId (market rotation_ready) = Some ''0xc1''"
    unfolding rotation_ready_eq hedged_4_eq hedged_3_eq by (simp add: demoMarket_def)
  ultimately show ?thesis using s' ev(2,3) by auto
qed

subsection \<open>The redemption ticker\<close>

lemma redeemOne_no_ctf:
  "redeemOne False now waitMs ctf p =
     (if now - marketEndTime p < waitMs then (Some p, [], 0)
      else (Some (p\<lparr> retryCount := retryCount p + 1, lastRetryAt := Some now \<rparr>), [], 0))"
  by (simp add: redeemOne_def Let_def)

lemma redeemLoop_no_ctf:
  "redeemLoop False now waitMs ctf ps = (kept, evs, amt) \<Longrightarrow>
     map pr_market kept = rev (map pr_market ps) \<and> evs = [] \<and> amt = 0"
proof (induction ps arbitrary: kept evs amt)
  case Nil
  then show ?case by simp
next
  case (Cons p ps)
  obtain k e a where rest: "redeemLoop False now waitMs ctf ps = (k, e, a)"
    by (cases "redeemLoop False now waitMs ctf ps") auto
  from Cons.IH [OF rest] have ih: "map pr_market k = rev (map pr_market ps)" "e = []" "a = 0"
    by simp_all
  from Cons.prems rest ih show ?case
    by (auto simp add: redeemOne_no_ctf split: if_splits)
qed

lemma processPendingRedemptions_no_ctf:
  assumes "\<not> hasCtf s"
  shows "map pr_market (pendingRedemptions (processPendingRedemptions s now ctf))
           = map pr_market (pendingRedemptions s)"
    and "emitted (processPendingRedemptions s now ctf) = emitted s"
    and "\<not> hasCtf (processPendingRedemptions s now ctf)"
proof -
  let ?w = "(if redeemWaitMinutes (autoRotateConfig s) = 0 then 5
             else redeemWaitMinutes (autoRotateConfig s)) * 60 * 1000"
  obtain k e a where l: "redeemLoop False now ?w ctf (rev (pendingRedemptions s)) = (k, e, a)"
    by (cases "redeemLoop False now ?w ctf (rev (pendingRedemptions s))") auto
  from redeemLoop_no_ctf [OF l]
  have r: "map pr_market k = map pr_market (pendingRedemptions s)" "e = []" "a = 0"
    by (simp_all add: rev_map)
  show "map pr_market (pendingRedemptions (processPendingRedemptions s now ctf))
           = map pr_market (pendingRedemptions s)"
    and "emitted (processPendingRedemptions s now ctf) = emitted s"
    and "\<not> hasCtf (processPendingRedemptions s now ctf)"
    using assms l r by (simp_all add: processPendingRedemptions_def Let_def)
qed

text \<open>
  With a settlement client the retries are bounded: on a tick past the wait an entry
  either leaves the queue or has its retry count raised by one, and it leaves the
  queue once the count has reached 20 before the tick (the 21st attempt).
\<close>

lemma redeemOne_with_ctf:
  assumes "waitMs \<le> now - marketEndTime p"
  shows "(case fst (redeemOne True now waitMs ctf p) of
            None \<Rightarrow> True | Some q \<Rightarrow> retryCount q = retryCount p + 1 \<and> retryCount q \<le> 20)"
    and "20 \<le> retryCount p \<Longrightarrow> fst (redeemOne True now waitMs ctf p) = None"
  using assms by (auto simp add: redeemOne_def Let_def split: CtfAnswer.splits)

text \<open>
  C7 (the code without a settlement client). When the service was built without a
  private key, no run of the redemption ticker removes an entry from the queue or emits
  an event: the queued markets stay the same after any number of ticks, whatever the
  clock and whatever the market's resolution.
\<close>

theorem pending_redemption_never_removed_without_client:
  assumes "\<not> hasCtf s"
  shows "map pr_market (pendingRedemptions (redeemTicks s ticks)) = map pr_market (pendingRedemptions s)
       \<and> emitted (redeemTicks s ticks) = emitted s
       \<and> \<not> hasCtf (redeemTicks s ticks)"
  using assms
proof (induction ticks arbitrary: s)
  case Nil
  then show ?case by simp
next
  case (Cons tick ticks)
  obtain now ctf where tick: "tick = (now, ctf)" by (cases tick)
  note p = processPendingRedemptions_no_ctf [OF Cons.prems, of now ctf]
  from Cons.IH [OF p(3)] p(1,2) show ?case
    by (simp add: tick)
qed

lemma unfunded_3_fields:
  "hasCtf unfunded_3 = False"
  "market unfunded_3 = Some demoMarket"
  "autoRotateConfig unfunded_3 = DEFAULT_AUTO_ROTATE_CONFIG\<lparr> enabled := True \<rparr>"
  "nextMarket unfunded_3 = None"
  "pendingRedemptions unfunded_3 = []"
  "isRunning unfunded_3 = True"
  "currentRound unfunded_3 =
     Some \<lparr> roundId = (''btc-updown-15m-0'', 0), startTime = 0, rd_endTime = 900000,
            priceToBeat = 0, openPrices_up = 1 / 2, openPrices_down = 1 / 2,
            phase = leg1_filled,
            leg1 = Some \<lparr> leg_side = UP, leg_price = 357 / 1000, leg_shares = 20,
                          leg_timestamp = 3200, leg_tokenId = ''up1'' \<rparr>,
            leg2 = None, totalCost = None, profit = None \<rparr>"
  unfolding unfunded_3_def unfunded_0_def
  by (simp_all add: scenario_defs)

lemma unfunded_rotated_fields:
  "hasCtf unfunded_rotated = False"
  "market unfunded_rotated = Some nextDemoMarket"
  "redeemWaitMinutes (autoRotateConfig unfunded_rotated) = 5"
  "map retryCount (pendingRedemptions unfunded_rotated) = [0]"
  "map marketEndTime (pendingRedemptions unfunded_rotated) = [900000]"
  "map pr_market (pendingRedemptions unfunded_rotated) = [demoMarket]"
  unfolding unfunded_rotated_def
  by (simp_all add: checkRotation_def settleAtEnd_def addPendingRedemption_def rotateAtEnd_def
        start_def stop_def emit_def unfunded_3_fields DEFAULT_AUTO_ROTATE_CONFIG_def
        demoMarket_def nextDemoMarket_def Let_def)

lemma processPendingRedemptions_no_ctf_single:
  assumes "\<not> hasCtf s" and "pendingRedemptions s = [p]"
      and "(if redeemWaitMinutes (autoRotateConfig s) = 0 then 5
            else redeemWaitMinutes (autoRotateConfig s)) * 60 * 1000 \<le> now - marketEndTime p"
  shows "pendingRedemptions (processPendingRedemptions s now ctf)
           = [p\<lparr> retryCount := retryCount p + 1, lastRetryAt := Some now \<rparr>]"
    and "autoRotateConfig (processPendingRedemptions s now ctf) = autoRotateConfig s"
  using assms
  by (simp_all add: processPendingRedemptions_def redeemOne_no_ctf Let_def)

lemma redeemTicks_no_ctf_single:
  assumes "\<not> hasCtf s" and "pendingRedemptions s = [p]"
      and "\<forall>tick\<in>set ticks.
             (if redeemWaitMinutes (autoRotateConfig s) = 0 then 5
              else redeemWaitMinutes (autoRotateConfig s)) * 60 * 1000
               \<le> fst tick - marketEndTime p"
  shows "map retryCount (pendingRedemptions (redeemTicks s ticks)) = [retryCount p + length ticks]"
  using assms
proof (induction ticks arbitrary: s p)
  case Nil
  then show ?case by simp
next
  case (Cons tick ticks)
  obtain now ctf where tick: "tick = (now, ctf)" by (cases tick)
  let ?s = "processPendingRedemptions s now ctf"
  let ?p = "p\<lparr> retryCount := retryCount p + 1, lastRetryAt := Some now \<rparr>"
  from Cons.prems(3) tick
  have w: "(if redeemWaitMinutes (autoRotateConfig s) = 0 then 5
            else redeemWaitMinutes (autoRotateConfig s)) * 60 * 1000 \<le> now - marketEndTime p"
    by simp
  note st = processPendingRedemptions_no_ctf_single [OF Cons.prems(1,2) w, of ctf]
  have nc: "\<not> hasCtf ?s"
    using processPendingRedemptions_no_ctf(3) [OF Cons.prems(1)] .
  have me: "marketEndTime ?p = marketEndTime p"
    by simp
  have rest: "\<forall>tick\<in>set ticks.
             (if redeemWaitMinutes (autoRotateConfig ?s) = 0 then 5
              else redeemWaitMinutes (autoRotateConfig ?s)) * 60 * 1000
               \<le> fst tick - marketEndTime ?p"
    unfolding st(2) me using Cons.prems(3) by (meson list.set_intros(2))
  from Cons.IH [OF nc st(1) rest] show ?case
    by (simp add: tick)
qed

text \<open>
  Scenario "unfunded": the position queued at the market end is still queued after 25
  ticks past the wait, with a retry count of 25, and no settlement event was emitted.
\<close>

theorem pending_redemption_never_removed_without_client_witness:
  "hasCtf unfunded_rotated = False
   \<and> map pr_market (pendingRedemptions unfunded_rotated) = [demoMarket]
   \<and> map retryCount (pendingRedemptions unfunded_rotated) = [0]
   \<and> length ticks25 = 25
   \<and> map pr_market (pendingRedemptions (redeemTicks unfunded_rotated ticks25)) = [demoMarket]
   \<and> map retryCount (pendingRedemptions (redeemTicks unfunded_rotated ticks25)) = [25]
   \<and> emitted (redeemTicks unfunded_rotated ticks25) = emitted unfunded_rotated"
proof -
  have nc: "\<not> hasCtf unfunded_rotated"
    by (simp add: unfunded_rotated_fields)
  note t = pending_redemption_never_removed_without_client [OF nc, of ticks25]
  obtain p where p: "pendingRedemptions unfunded_rotated = [p]"
      "retryCount p = 0" "marketEndTime p = 900000"
    using unfunded_rotated_fields(4,5)
    by (cases "pendingRedemptions unfunded_rotated") auto
  have w: "\<forall>tick\<in>set ticks25.
             (if redeemWaitMinutes (autoRotateConfig unfunded_rotated) = 0 then 5
              else redeemWaitMinutes (autoRotateConfig unfunded_rotated)) * 60 * 1000
               \<le> fst tick - marketEndTime p"
    by (auto simp add: unfunded_rotated_fields p ticks25_def)
  have len: "length ticks25 = 25"
    by (simp add: ticks25_def)
  from redeemTicks_no_ctf_single [OF nc p(1) w]
  have "map retryCount (pendingRedemptions (redeemTicks unfunded_rotated ticks25)) = [25]"
    by (simp add: p len)
  with t len show ?thesis
    by (simp add: unfunded_rotated_fields)
qed

subsection \<open>Phase changes\<close>
















end
